theory Spec2Isabelle
  imports Complex_Main
begin

chapter \<open>Matrix: memory pipeline, tool-calling loop and session runtime\<close>

text \<open>
  A shallow embedding of three source files of the agent runtime:
  \<^item> \<^verbatim>\<open>core/brain/tools/definitions/memory/memory_operation.ts\<close> (the knowledge memory tool),
  \<^item> \<^verbatim>\<open>core/brain/llm/services/ollama.ts\<close> (the tool-calling loop of one LLM service),
  \<^item> \<^verbatim>\<open>core/session/coversation-session.ts\<close> (turns, background work, persistence).

  JavaScript numbers that carry scores and confidences are modelled as rationals: the code
  only compares them with each other and with literals and clamps them, so their order is
  all that matters. Numbers that are identifiers and counters are integers. Strings are
  \<open>char list\<close>s; thrown values are values of a sum type. Calls that leave the process
  (embedder, vector store, LLM provider, tools, embedding manager, storage) are answered by
  an environment that the model takes as an argument, so every theorem holds for all the
  answers such a collaborator can give. Values that JavaScript lets through where the type
  annotation says \<^verbatim>\<open>number\<close> or \<^verbatim>\<open>boolean\<close> (\<^verbatim>\<open>undefined\<close>, \<^verbatim>\<open>NaN\<close>) are values of
  the model where the code compares or spreads them.
\<close>

section \<open>JavaScript helpers\<close>

text \<open>What a \<^verbatim>\<open>throw\<close> carries: an \<^verbatim>\<open>Error\<close> object with its message, or any other value.\<close>

datatype thrown = ErrorObject string | OtherValue string

text \<open>\<^verbatim>\<open>error instanceof Error ? error.message : String(error)\<close>\<close>

fun error_message :: "thrown \<Rightarrow> string" where
  "error_message (ErrorObject m) = m"
| "error_message (OtherValue v) = v"

fun instanceof_Error :: "thrown \<Rightarrow> bool" where
  "instanceof_Error (ErrorObject m) = True"
| "instanceof_Error (OtherValue v) = False"

text \<open>
  The remainder operator \<^verbatim>\<open>%\<close> on integers: the result has the sign of the dividend.
\<close>

definition js_rem :: "int \<Rightarrow> int \<Rightarrow> int" where
  "js_rem a b = sgn a * (\<bar>a\<bar> mod \<bar>b\<bar>)"

text \<open>
  \<^verbatim>\<open>a || d\<close> for an optional string \<open>a\<close>: \<^verbatim>\<open>undefined\<close> and the empty string are falsy.
\<close>

definition str_or :: "string option \<Rightarrow> string \<Rightarrow> string" where
  "str_or v d = (case v of None \<Rightarrow> d | Some s \<Rightarrow> if s = [] then d else s)"

text \<open>
  \<^verbatim>\<open>...(v && { key: v })\<close>: the key is present only for a truthy \<open>v\<close>.
\<close>

definition spread_if_truthy :: "string option \<Rightarrow> string option" where
  "spread_if_truthy v = (case v of None \<Rightarrow> None | Some s \<Rightarrow> if s = [] then None else Some s)"

text \<open>
  A value of type \<^verbatim>\<open>number\<close> as the options carry it: \<^verbatim>\<open>NaN\<close> or a number. The
  infinities fail the range tests of the validation like every number outside the range,
  so they are not among the values. \<open>None\<close> of type \<open>js_number option\<close> or
  \<open>bool option\<close> is \<^verbatim>\<open>undefined\<close>.
\<close>

datatype js_number = NaN | Num rat

text \<open>
  The comparisons \<^verbatim>\<open><\<close>, \<^verbatim>\<open>>\<close> and \<^verbatim>\<open>>=\<close> of a number with an option value: every
  comparison with \<^verbatim>\<open>undefined\<close> or \<^verbatim>\<open>NaN\<close> is false.
\<close>

definition js_lt :: "rat \<Rightarrow> js_number option \<Rightarrow> bool" where
  "js_lt x v = (case v of Some (Num t) \<Rightarrow> x < t | _ \<Rightarrow> False)"

definition js_gt :: "rat \<Rightarrow> js_number option \<Rightarrow> bool" where
  "js_gt x v = (case v of Some (Num t) \<Rightarrow> x > t | _ \<Rightarrow> False)"

definition js_ge :: "rat \<Rightarrow> js_number option \<Rightarrow> bool" where
  "js_ge x v = (case v of Some (Num t) \<Rightarrow> x \<ge> t | _ \<Rightarrow> False)"

text \<open>The truth value of an option that holds a boolean or \<^verbatim>\<open>undefined\<close>.\<close>

definition truthy :: "bool option \<Rightarrow> bool" where
  "truthy v = (v = Some True)"

text \<open>\<^verbatim>\<open>String.prototype.includes\<close>: \<open>sub\<close> occurs in \<open>s\<close> as a contiguous piece.\<close>

fun starts_with :: "string \<Rightarrow> string \<Rightarrow> bool" where
  "starts_with s [] = True"
| "starts_with [] (c # sub) = False"
| "starts_with (d # s) (c # sub) = (d = c \<and> starts_with s sub)"

fun str_includes :: "string \<Rightarrow> string \<Rightarrow> bool" where
  "str_includes [] sub = (sub = [])"
| "str_includes (c # cs) sub = (starts_with (c # cs) sub \<or> str_includes cs sub)"

text \<open>
  \<^verbatim>\<open>String.prototype.toLowerCase\<close> on the ASCII letters; every other character is kept.
\<close>

definition lower_char :: "char \<Rightarrow> char" where
  "lower_char c =
     (let n = (of_char c :: nat) in if 65 \<le> n \<and> n \<le> 90 then char_of (n + 32) else c)"

definition toLowerCase :: "string \<Rightarrow> string" where
  "toLowerCase s = map lower_char s"

text \<open>White space as \<^verbatim>\<open>trim\<close> and the regular expression \<^verbatim>\<open>\s\<close> read it (ASCII part).\<close>

definition is_space :: "char \<Rightarrow> bool" where
  "is_space c = (c \<in> set [CHR 0x20, CHR 0x09, CHR 0x0A, CHR 0x0B, CHR 0x0C, CHR 0x0D])"

definition trim :: "string \<Rightarrow> string" where
  "trim s = rev (dropWhile is_space (rev (dropWhile is_space s)))"

text \<open>
  \<^verbatim>\<open>Array.from(new Set(xs))\<close>: a set keeps the first occurrence of every element, in
  insertion order.
\<close>

primrec set_add_all :: "'a list \<Rightarrow> 'a list \<Rightarrow> 'a list" where
  "set_add_all seen [] = seen"
| "set_add_all seen (x # xs) = set_add_all (if x \<in> set seen then seen else seen @ [x]) xs"

definition array_from_set :: "'a list \<Rightarrow> 'a list" where
  "array_from_set xs = set_add_all [] xs"

text \<open>
  \<^verbatim>\<open>s.split(/\s+/)\<close>: the pieces between maximal runs of white space. A leading or a
  trailing run leaves an empty piece, and the empty string splits into one empty piece.
\<close>

function split_ws :: "string \<Rightarrow> string list" where
  "split_ws [] = [[]]"
| "split_ws (c # cs) =
     (if is_space c then [] # split_ws (dropWhile is_space cs)
      else (case split_ws cs of [] \<Rightarrow> [[c]] | w # ws \<Rightarrow> (c # w) # ws))"
  by pat_completeness auto
termination
  by (relation "measure length") (auto simp: length_dropWhile_le less_Suc_eq_le)

section \<open>The knowledge memory tool: data\<close>

text \<open>
  A hit of \<^verbatim>\<open>vectorStore.search\<close>. The code reads \<^verbatim>\<open>id\<close>, \<^verbatim>\<open>score\<close>,
  \<^verbatim>\<open>payload?.id\<close>, \<^verbatim>\<open>payload?.data\<close> and \<^verbatim>\<open>text\<close>; each may be missing.
\<close>

record search_hit =
  hit_id :: "int option"
  score :: "rat option"
  payload_id :: "int option"
  payload_data :: "string option"
  hit_text :: "string option"

text \<open>\<^verbatim>\<open>result.score || 0\<close>\<close>

definition score_or_zero :: "search_hit \<Rightarrow> rat" where
  "score_or_zero h = (case score h of None \<Rightarrow> 0 | Some s \<Rightarrow> s)"

text \<open>
  The text of a stored memory as the tool reads it everywhere:
  \<^verbatim>\<open>mem.payload?.data || mem.text || ''\<close>.
\<close>

definition hit_content :: "search_hit \<Rightarrow> string" where
  "hit_content h = str_or (payload_data h) (str_or (hit_text h) [])"

text \<open>
  \<^verbatim>\<open>interface MemoryAction\<close>. The event is kept as the string the code stores: on the
  LLM path it comes out of a parsed response and TypeScript's union type is erased at run
  time.
\<close>

record memory_action =
  action_id :: int
  action_text :: string
  event :: string
  tags :: "string list"
  old_memory :: "string option"
  code_pattern :: "string option"
  confidence :: rat

text \<open>
  What \<^verbatim>\<open>Date.now()\<close> and the two calls of \<^verbatim>\<open>Math.random()\<close> give to one call of
  \<^verbatim>\<open>generateMemoryId\<close>.
\<close>

record entropy =
  now :: int
  random1 :: rat
  random2 :: rat

section \<open>generateMemoryId\<close>

definition generateMemoryId :: "entropy \<Rightarrow> int \<Rightarrow> int" where
  "generateMemoryId e index =
     (let randomSuffix = \<lfloor>random1 e * 1000\<rfloor>;
          vectorId = 1 + js_rem (js_rem (now e) 300000 * 1000 + randomSuffix + index) 333333
      in if vectorId \<le> 0 then \<lfloor>random2 e * 333333\<rfloor> + 1 else vectorId)"

section \<open>determineMemoryOperation: the similarity-only decision\<close>

definition determineMemoryOperation ::
  "entropy \<Rightarrow> string \<Rightarrow> search_hit list \<Rightarrow> js_number option \<Rightarrow> int \<Rightarrow> string option
     \<Rightarrow> string list \<Rightarrow> memory_action" where
  "determineMemoryOperation e fct similarMemories threshold index codePattern tgs =
     (let factId = generateMemoryId e index in
      case similarMemories of
        [] \<Rightarrow>
          \<lparr>action_id = factId, action_text = fct, event = ''ADD'', tags = tgs,
           old_memory = None, code_pattern = spread_if_truthy codePattern, confidence = 8 / 10\<rparr>
      | mostSimilar # others \<Rightarrow>
          (let similarity = score_or_zero mostSimilar in
           if similarity > 9 / 10 then
             \<lparr>action_id = factId, action_text = fct, event = ''NONE'', tags = tgs,
              old_memory = None, code_pattern = spread_if_truthy codePattern,
              confidence = 9 / 10\<rparr>
           else if js_gt similarity threshold \<and> similarity \<le> 9 / 10 then
             \<lparr>action_id = factId, action_text = fct, event = ''UPDATE'', tags = tgs,
              old_memory = Some (hit_content mostSimilar),
              code_pattern = spread_if_truthy codePattern, confidence = 75 / 100\<rparr>
           else
             \<lparr>action_id = factId, action_text = fct, event = ''ADD'', tags = tgs,
              old_memory = None, code_pattern = spread_if_truthy codePattern,
              confidence = 7 / 10\<rparr>))"

section \<open>extractTechnicalTags\<close>

definition languages :: "string list" where
  "languages = [''javascript'', ''typescript'', ''python'', ''java'', ''rust'', ''go'', ''php'',
     ''ruby'', ''swift'', ''kotlin'']"

definition frameworks :: "string list" where
  "frameworks = [''react'', ''vue'', ''angular'', ''svelte'', ''nextjs'', ''express'', ''fastify'',
     ''django'', ''flask'']"

definition tools :: "string list" where
  "tools = [''docker'', ''kubernetes'', ''git'', ''npm'', ''yarn'', ''webpack'', ''vite'',
     ''eslint'', ''prettier'']"

text \<open>\<^verbatim>\<open>fact.includes(a) || fact.includes(b) || ...\<close>\<close>

definition includes_any :: "string \<Rightarrow> string list \<Rightarrow> bool" where
  "includes_any s subs = list_ex (str_includes s) subs"

text \<open>The tag pushed by one of the content-type tests, when the test holds.\<close>

definition push_if :: "bool \<Rightarrow> string \<Rightarrow> string list" where
  "push_if b tag = (if b then [tag] else [])"

definition content_tags :: "string \<Rightarrow> string list" where
  "content_tags fct =
     push_if (str_includes fct [CHR 0x60, CHR 0x60, CHR 0x60]) ''code-block''
     @ push_if (includes_any fct [''function'', ''class'', ''const'', ''let'', ''var''])
         ''programming''
     @ push_if (includes_any fct [''/'', [CHR 0x5C], ''.js'', ''.ts'', ''.py'']) ''file-path''
     @ push_if (includes_any fct [''error'', ''exception'', ''failed'', ''bug''])
         ''error-handling''
     @ push_if (includes_any fct [''config'', ''setting'', ''option'']) ''configuration''
     @ push_if (includes_any fct [''api'', ''endpoint'', ''request'', ''response'']) ''api''"

definition pattern_tags :: "string \<Rightarrow> string list" where
  "pattern_tags fct =
     filter (str_includes (toLowerCase fct)) languages
     @ filter (str_includes (toLowerCase fct)) frameworks
     @ filter (str_includes (toLowerCase fct)) tools
     @ content_tags fct"

definition extractTechnicalTags :: "string \<Rightarrow> string list" where
  "extractTechnicalTags fct =
     (let found = pattern_tags fct;
          tgs = (if found = [] then [''general-knowledge''] else found)
      in map toLowerCase (array_from_set tgs))"

text \<open>Every tag the function can push, in the order of the source.\<close>

definition known_tags :: "string list" where
  "known_tags = languages @ frameworks @ tools
     @ [''code-block'', ''programming'', ''file-path'', ''error-handling'', ''configuration'',
        ''api'', ''general-knowledge'']"

section \<open>calculateTextSimilarity\<close>

text \<open>The token overlap used when no embedder or no vector store is at hand.\<close>

definition calculateTextSimilarity :: "string \<Rightarrow> string \<Rightarrow> rat" where
  "calculateTextSimilarity text1 text2 =
     (let words1 = array_from_set (split_ws (toLowerCase text1));
          words2 = array_from_set (split_ws (toLowerCase text2));
          intersection = array_from_set (filter (\<lambda>word. word \<in> set words2) words1);
          union_set = array_from_set (words1 @ words2)
      in of_nat (length intersection) / of_nat (length union_set))"

section \<open>Arguments, options and validation\<close>

text \<open>
  A key of the object \<^verbatim>\<open>args.options\<close>: absent, present with the value
  \<^verbatim>\<open>undefined\<close>, or present with a value.
\<close>

datatype 'a property = Absent | Undefined | Value 'a

text \<open>The merged options, as the handler reads them.\<close>

record options =
  similarityThreshold :: "js_number option"
  maxSimilarResults :: "js_number option"
  enableBatchProcessing :: "bool option"
  useLLMDecisions :: "bool option"
  confidenceThreshold :: "js_number option"
  enableDeleteOperations :: "bool option"

definition DEFAULT_OPTIONS :: options where
  "DEFAULT_OPTIONS =
     \<lparr>similarityThreshold = Some (Num (7 / 10)), maxSimilarResults = Some (Num 5),
      enableBatchProcessing = Some True, useLLMDecisions = Some True,
      confidenceThreshold = Some (Num (4 / 10)), enableDeleteOperations = Some True\<rparr>"

text \<open>\<^verbatim>\<open>args.options\<close>: every key is optional.\<close>

record options_arg =
  arg_similarityThreshold :: "js_number property"
  arg_maxSimilarResults :: "js_number property"
  arg_enableBatchProcessing :: "bool property"
  arg_useLLMDecisions :: "bool property"
  arg_confidenceThreshold :: "js_number property"
  arg_enableDeleteOperations :: "bool property"

text \<open>
  \<^verbatim>\<open>{ ...DEFAULT_OPTIONS, ...args.options }\<close>. The spread copies every key that is present,
  also one whose value is \<^verbatim>\<open>undefined\<close>; only an absent key leaves the default in place.
\<close>

definition spread_key :: "'a option \<Rightarrow> 'a property \<Rightarrow> 'a option" where
  "spread_key dflt p = (case p of Absent \<Rightarrow> dflt | Undefined \<Rightarrow> None | Value v \<Rightarrow> Some v)"

definition merge_options :: "options_arg option \<Rightarrow> options" where
  "merge_options given =
     (case given of
        None \<Rightarrow> DEFAULT_OPTIONS
      | Some g \<Rightarrow>
          \<lparr>similarityThreshold =
             spread_key (similarityThreshold DEFAULT_OPTIONS) (arg_similarityThreshold g),
           maxSimilarResults =
             spread_key (maxSimilarResults DEFAULT_OPTIONS) (arg_maxSimilarResults g),
           enableBatchProcessing =
             spread_key (enableBatchProcessing DEFAULT_OPTIONS) (arg_enableBatchProcessing g),
           useLLMDecisions =
             spread_key (useLLMDecisions DEFAULT_OPTIONS) (arg_useLLMDecisions g),
           confidenceThreshold =
             spread_key (confidenceThreshold DEFAULT_OPTIONS) (arg_confidenceThreshold g),
           enableDeleteOperations =
             spread_key (enableDeleteOperations DEFAULT_OPTIONS) (arg_enableDeleteOperations g)\<rparr>)"

record existing_memory =
  mem_id :: string
  mem_text :: string

text \<open>
  \<^verbatim>\<open>interface MemoryOperationArgs\<close>. \<^verbatim>\<open>args.context\<close> only goes into the prompt of the
  decision LLM, whose answer the environment gives, so it is not a field here.
\<close>

record memory_operation_args =
  extractedFacts :: "string list"
  existingMemories :: "existing_memory list option"
  args_options :: "options_arg option"

text \<open>
  \<^verbatim>\<open>validateMemoryOperationArgs\<close>: the list of error messages. The \<^verbatim>\<open>typeof\<close> tests of
  the source hold by the types of the model; the tests on values are kept. A key whose value
  is \<^verbatim>\<open>undefined\<close> is skipped like an absent one, and \<^verbatim>\<open>NaN\<close> passes both range
  tests, as every comparison with it is false. The messages about an existing memory leave
  out its index.
\<close>

definition out_of_range :: "js_number property \<Rightarrow> rat \<Rightarrow> rat \<Rightarrow> string \<Rightarrow> string list" where
  "out_of_range p lo hi msg =
     (case p of Value (Num x) \<Rightarrow> if x < lo \<or> x > hi then [msg] else [] | _ \<Rightarrow> [])"

definition validateMemoryOperationArgs :: "memory_operation_args \<Rightarrow> string list" where
  "validateMemoryOperationArgs args =
     (if extractedFacts args = [] then [''extractedFacts array cannot be empty''] else [])
     @ (case existingMemories args of
          None \<Rightarrow> []
        | Some mems \<Rightarrow>
            concat (map (\<lambda>m.
              (if mem_id m = [] then [''existingMemories[].id must be a non-empty string'']
               else [])
              @ (if mem_text m = [] then [''existingMemories[].text must be a non-empty string'']
                 else [])) mems))
     @ (case args_options args of
          None \<Rightarrow> []
        | Some g \<Rightarrow>
            out_of_range (arg_similarityThreshold g) 0 1
              ''options.similarityThreshold must be between 0.0 and 1.0''
            @ out_of_range (arg_maxSimilarResults g) 1 20
                ''options.maxSimilarResults must be between 1 and 20''
            @ out_of_range (arg_confidenceThreshold g) 0 1
                ''options.confidenceThreshold must be between 0.0 and 1.0'')"

section \<open>llmDetermineMemoryOperation: the LLM-assisted decision\<close>

text \<open>
  What \<^verbatim>\<open>parseLLMDecision\<close> returns when it does not return \<^verbatim>\<open>null\<close>. Its parsing of the
  response text (JSON, regular expressions, keywords) is not modelled: the decision function
  below is stated for every object it can return, and clamps and validates again itself.
\<close>

record llm_decision =
  operation :: string
  decision_confidence :: rat
  targetMemoryId :: "int option"

definition isValidOperation :: "string \<Rightarrow> bool" where
  "isValidOperation opn = (opn \<in> set [''ADD'', ''UPDATE'', ''DELETE'', ''NONE''])"

text \<open>\<^verbatim>\<open>decision.targetMemoryId || factId\<close>: \<^verbatim>\<open>null\<close> and \<open>0\<close> are falsy.\<close>

definition truthy_id :: "int option \<Rightarrow> bool" where
  "truthy_id v = (case v of None \<Rightarrow> False | Some n \<Rightarrow> n \<noteq> 0)"

definition id_or :: "int option \<Rightarrow> int \<Rightarrow> int" where
  "id_or v d = (case v of None \<Rightarrow> d | Some n \<Rightarrow> if n = 0 then d else n)"

text \<open>
  The argument \<open>llm\<close> is the outcome of \<^verbatim>\<open>llmService.directGenerate(prompt)\<close> followed by
  \<^verbatim>\<open>parseLLMDecision\<close>: a thrown value, \<^verbatim>\<open>null\<close> (\<open>None\<close>) or a decision. The function
  rethrows whatever it catches.
\<close>

definition llmDetermineMemoryOperation ::
  "entropy \<Rightarrow> string \<Rightarrow> search_hit list \<Rightarrow> thrown + llm_decision option \<Rightarrow> int
     \<Rightarrow> string option \<Rightarrow> string list \<Rightarrow> thrown + memory_action" where
  "llmDetermineMemoryOperation e fct similarMemories llm index codePattern tgs =
     (let factId = generateMemoryId e index in
      case llm of
        Inl err \<Rightarrow> Inl err
      | Inr None \<Rightarrow> Inl (ErrorObject ''Invalid LLM decision: null'')
      | Inr (Some decision) \<Rightarrow>
          if \<not> isValidOperation (operation decision)
          then Inl (ErrorObject ''Invalid LLM decision'')
          else
            (let memoryAction =
                   \<lparr>action_id = id_or (targetMemoryId decision) factId, action_text = fct,
                    event = operation decision, tags = tgs, old_memory = None,
                    code_pattern = spread_if_truthy codePattern,
                    confidence =
                      max 0 (min 1 (if decision_confidence decision = 0 then 7 / 10
                                    else decision_confidence decision))\<rparr>;
                 withOld =
                   (if event memoryAction = ''UPDATE'' \<and> truthy_id (targetMemoryId decision)
                    then
                      (case find (\<lambda>mem. hit_id mem = targetMemoryId decision
                                     \<or> payload_id mem = targetMemoryId decision)
                              similarMemories of
                         None \<Rightarrow> memoryAction
                       | Some targetMemory \<Rightarrow>
                           memoryAction\<lparr>old_memory := Some (hit_content targetMemory)\<rparr>)
                    else memoryAction)
             in Inr (if action_id withOld \<le> 0 then withOld\<lparr>action_id := factId\<rparr>
                     else withOld)))"

section \<open>The handler of the memory_operation tool\<close>

text \<open>
  What the collaborators answer while one fact is processed: \<^verbatim>\<open>embedder.embed(fact)\<close>
  (the vector is only handed on to the search, so a successful call is \<open>Inr ()\<close>),
  \<^verbatim>\<open>vectorStore.search(embedding, maxSimilarResults)\<close>, the decision LLM, and the clock and
  random numbers of the calls of \<^verbatim>\<open>generateMemoryId\<close> (the second one is read when the
  similarity decision runs after a failed LLM decision).
\<close>

record fact_env =
  embed :: "thrown + unit"
  search :: "thrown + search_hit list"
  llm_answer :: "thrown + llm_decision option"
  id_entropy :: entropy
  fallback_entropy :: entropy

text \<open>
  The services of \<^verbatim>\<open>context.services\<close>: whether \<^verbatim>\<open>getEmbedder('default')\<close> and
  \<^verbatim>\<open>getStore()\<close> gave something truthy, and whether an LLM service is there.
\<close>

record services =
  embedder_available :: bool
  vectorStore_available :: bool
  llmService_available :: bool

text \<open>
  The environment of one call of the handler. \<^verbatim>\<open>extractCodePattern\<close> matches regular
  expressions against the fact; the handler only spreads its result into the action, so it
  is a parameter. \<open>persist_embed k\<close> is the answer of the embedder for the \<open>k\<close>-th
  action that \<^verbatim>\<open>persistMemoryActions\<close> writes.
\<close>

record handler_env =
  extractCodePattern :: "string \<Rightarrow> string option"
  fact_env_of :: "nat \<Rightarrow> fact_env"
  persist_embed :: "nat \<Rightarrow> thrown + unit"

text \<open>
  The variables the loop over the facts updates. \<open>runtimeFailures\<close> lists the errors passed
  to \<^verbatim>\<open>embeddingManager.handleRuntimeFailure\<close>, the call that disables embeddings globally.
\<close>

record loop_state =
  memoryActions :: "memory_action list"
  totalSimilarMemories :: nat
  confidenceSum :: rat
  llmDecisionsUsed :: nat
  fallbackDecisionsUsed :: nat
  runtimeFailures :: "thrown list"

definition initial_state :: loop_state where
  "initial_state =
     \<lparr>memoryActions = [], totalSimilarMemories = 0, confidenceSum = 0, llmDecisionsUsed = 0,
      fallbackDecisionsUsed = 0, runtimeFailures = []\<rparr>"

text \<open>The object literal of both \<^verbatim>\<open>catch\<close> blocks: ADD with confidence 0.6.\<close>

definition fallback_add :: "entropy \<Rightarrow> int \<Rightarrow> string \<Rightarrow> string list \<Rightarrow> string option \<Rightarrow> memory_action" where
  "fallback_add e index fct tgs codePattern =
     \<lparr>action_id = generateMemoryId e index, action_text = fct, event = ''ADD'', tags = tgs,
      old_memory = None, code_pattern = spread_if_truthy codePattern, confidence = 6 / 10\<rparr>"

text \<open>The no-embedding branch: \<^verbatim>\<open>isNew\<close> and its action.\<close>

definition basic_analysis ::
  "memory_operation_args \<Rightarrow> options \<Rightarrow> entropy \<Rightarrow> int \<Rightarrow> string \<Rightarrow> string list \<Rightarrow> string option
     \<Rightarrow> memory_action" where
  "basic_analysis args opts e index fct tgs codePattern =
     (let isNew =
            \<not> (case existingMemories args of
                 None \<Rightarrow> False
               | Some mems \<Rightarrow>
                   list_ex (\<lambda>mem. js_gt (calculateTextSimilarity fct (mem_text mem))
                                    (similarityThreshold opts)) mems)
      in \<lparr>action_id = generateMemoryId e index, action_text = fct,
          event = (if isNew then ''ADD'' else ''NONE''), tags = tgs, old_memory = None,
          code_pattern = spread_if_truthy codePattern,
          confidence = (if isNew then 7 / 10 else 5 / 10)\<rparr>)"

text \<open>
  The end of the loop body: the confidence threshold, then \<^verbatim>\<open>memoryActions.push\<close> and
  \<^verbatim>\<open>confidenceSum +=\<close>.
\<close>

definition apply_confidence_threshold :: "options \<Rightarrow> memory_action \<Rightarrow> memory_action" where
  "apply_confidence_threshold opts a =
     (if js_lt (confidence a) (confidenceThreshold opts) \<and> event a \<noteq> ''NONE''
      then a\<lparr>event := ''NONE''\<rparr> else a)"

definition push_action :: "options \<Rightarrow> memory_action \<Rightarrow> loop_state \<Rightarrow> loop_state" where
  "push_action opts a st =
     (let gated = apply_confidence_threshold opts a
      in st\<lparr>memoryActions := memoryActions st @ [gated],
            confidenceSum := confidenceSum st + confidence gated\<rparr>)"

text \<open>
  One pass of the loop body for the fact at \<open>index\<close>. In the branch where
  \<^verbatim>\<open>embedder.embed\<close> throws, the source builds the fallback action, counts it and then
  executes \<^verbatim>\<open>continue\<close>: the rest of the body, with the push, is not reached.
  \<^verbatim>\<open>handleRuntimeFailure\<close> and \<^verbatim>\<open>embedder.getConfig\<close> are taken to return.
\<close>

definition process_fact ::
  "memory_operation_args \<Rightarrow> options \<Rightarrow> services \<Rightarrow> (string \<Rightarrow> string option) \<Rightarrow> fact_env
     \<Rightarrow> nat \<Rightarrow> string \<Rightarrow> loop_state \<Rightarrow> loop_state" where
  "process_fact args opts sv xcp fe i fct st =
     (let codePattern = xcp fct;
          tgs = extractTechnicalTags fct
      in
      if embedder_available sv \<and> vectorStore_available sv then
        (case embed fe of
           Inl embedError \<Rightarrow>
             st\<lparr>runtimeFailures :=
                    (if instanceof_Error embedError then runtimeFailures st @ [embedError]
                     else runtimeFailures st),
                fallbackDecisionsUsed := fallbackDecisionsUsed st + 1\<rparr>
         | Inr embedding \<Rightarrow>
             (case search fe of
                Inl err \<Rightarrow>
                  push_action opts (fallback_add (id_entropy fe) (int i) fct tgs codePattern)
                    (st\<lparr>fallbackDecisionsUsed := fallbackDecisionsUsed st + 1\<rparr>)
              | Inr searchResults \<Rightarrow>
                  (let similarMemories =
                         filter (\<lambda>r. js_ge (score_or_zero r) (similarityThreshold opts))
                           searchResults;
                       st1 = st\<lparr>totalSimilarMemories :=
                                   totalSimilarMemories st + length similarMemories\<rparr>
                   in
                   if truthy (useLLMDecisions opts) \<and> llmService_available sv then
                     (case llmDetermineMemoryOperation (id_entropy fe) fct similarMemories
                             (llm_answer fe) (int i) codePattern tgs of
                        Inr memoryAction \<Rightarrow>
                          push_action opts memoryAction
                            (st1\<lparr>llmDecisionsUsed := llmDecisionsUsed st1 + 1\<rparr>)
                      | Inl err \<Rightarrow>
                          push_action opts
                            (determineMemoryOperation (fallback_entropy fe) fct similarMemories
                               (similarityThreshold opts) (int i) codePattern tgs)
                            (st1\<lparr>fallbackDecisionsUsed := fallbackDecisionsUsed st1 + 1\<rparr>))
                   else
                     push_action opts
                       (determineMemoryOperation (id_entropy fe) fct similarMemories
                          (similarityThreshold opts) (int i) codePattern tgs)
                       (st1\<lparr>fallbackDecisionsUsed := fallbackDecisionsUsed st1 + 1\<rparr>))))
      else
        push_action opts (basic_analysis args opts (id_entropy fe) (int i) fct tgs codePattern)
          (st\<lparr>fallbackDecisionsUsed := fallbackDecisionsUsed st + 1\<rparr>))"

text \<open>\<^verbatim>\<open>for (let i = 0; i < validFacts.length; i++)\<close>, from index \<open>i\<close> on.\<close>

fun process_facts ::
  "memory_operation_args \<Rightarrow> options \<Rightarrow> services \<Rightarrow> handler_env \<Rightarrow> nat \<Rightarrow> string list
     \<Rightarrow> loop_state \<Rightarrow> loop_state" where
  "process_facts args opts sv env i [] st = st"
| "process_facts args opts sv env i (fct # rest) st =
     process_facts args opts sv env (Suc i) rest
       (process_fact args opts sv (extractCodePattern env) (fact_env_of env i) i fct st)"

section \<open>persistMemoryActions\<close>

text \<open>
  Modelled from the spec: \<^verbatim>\<open>createKnowledgePayload\<close> is imported from \<^verbatim>\<open>./payloads.js\<close>,
  which is not among the sources. The spec gives the payload written to the vector store as
  \<^verbatim>\<open>{id, text, tags, confidence, event, qualitySource, codePattern?, oldMemory?}\<close>; the
  function below builds that record from its six arguments, the last being the object with
  \<^verbatim>\<open>qualitySource\<close> and the two optional keys.
\<close>

record knowledge_payload =
  payload_ident :: int
  payload_text :: string
  payload_tags :: "string list"
  payload_confidence :: rat
  payload_event :: string
  qualitySource :: string
  payload_code_pattern :: "string option"
  payload_old_memory :: "string option"

definition createKnowledgePayload ::
  "int \<Rightarrow> string \<Rightarrow> string list \<Rightarrow> rat \<Rightarrow> string \<Rightarrow> string \<times> string option \<times> string option
     \<Rightarrow> knowledge_payload" where
  "createKnowledgePayload ident txt tgs conf ev extra =
     (case extra of (source, codePattern, oldMemory) \<Rightarrow>
        \<lparr>payload_ident = ident, payload_text = txt, payload_tags = tgs,
         payload_confidence = conf, payload_event = ev, qualitySource = source,
         payload_code_pattern = codePattern, payload_old_memory = oldMemory\<rparr>)"

text \<open>The calls issued to the vector store.\<close>

datatype store_call = Insert int knowledge_payload | Update int knowledge_payload

fun payload_of :: "store_call \<Rightarrow> knowledge_payload" where
  "payload_of (Insert ident p) = p"
| "payload_of (Update ident p) = p"

text \<open>
  The loop over \<^verbatim>\<open>actionsToProcess\<close>; \<open>k\<close> counts the actions. A failed embedding skips
  the action; an error thrown by the store is caught and logged and does not change what
  is issued for the other actions, so the list of issued calls does not depend on it.
\<close>

fun persist_loop :: "(nat \<Rightarrow> thrown + unit) \<Rightarrow> nat \<Rightarrow> memory_action list \<Rightarrow> store_call list" where
  "persist_loop pe k [] = []"
| "persist_loop pe k (action # rest) =
     (case pe k of
        Inl embedError \<Rightarrow> persist_loop pe (Suc k) rest
      | Inr embedding \<Rightarrow>
          (let source = ''heuristic'';
               payload =
                 createKnowledgePayload (action_id action) (action_text action) (tags action)
                   (confidence action) (event action)
                   (source, spread_if_truthy (code_pattern action),
                    spread_if_truthy (old_memory action))
           in
           if event action = ''ADD'' then
             Insert (action_id action) payload # persist_loop pe (Suc k) rest
           else if event action = ''UPDATE'' then
             Update (action_id action) payload # persist_loop pe (Suc k) rest
           else persist_loop pe (Suc k) rest))"

definition persistMemoryActions :: "(nat \<Rightarrow> thrown + unit) \<Rightarrow> memory_action list \<Rightarrow> store_call list" where
  "persistMemoryActions pe actions =
     (let actionsToProcess = filter (\<lambda>a. event a = ''ADD'' \<or> event a = ''UPDATE'') actions
      in if actionsToProcess = [] then [] else persist_loop pe 0 actionsToProcess)"

section \<open>The result of the handler\<close>

record memory_operation_result =
  success :: bool
  totalFacts :: nat
  processedFacts :: nat
  skippedFacts :: nat
  memory :: "memory_action list"
  addOperations :: nat
  updateOperations :: nat
  deleteOperations :: nat
  noneOperations :: nat
  similarMemoriesTotal :: nat
  averageConfidence :: rat
  llmDecisions :: nat
  fallbackDecisions :: nat
  error_text :: "string option"

text \<open>
  A run of the handler: the value it returns, the errors given to
  \<^verbatim>\<open>handleRuntimeFailure\<close>, and the calls issued to the vector store.
\<close>

record handler_run =
  returned :: memory_operation_result
  disabled_by :: "thrown list"
  store_calls :: "store_call list"

definition count_event :: "string \<Rightarrow> memory_action list \<Rightarrow> nat" where
  "count_event ev actions = length (filter (\<lambda>a. event a = ev) actions)"

text \<open>The object returned from the outer \<^verbatim>\<open>catch\<close>.\<close>

definition failure_result :: "memory_operation_args \<Rightarrow> string \<Rightarrow> handler_run" where
  "failure_result args msg =
     \<lparr>returned =
        \<lparr>success = False, totalFacts = length (extractedFacts args), processedFacts = 0,
         skippedFacts = length (extractedFacts args), memory = [], addOperations = 0,
         updateOperations = 0, deleteOperations = 0, noneOperations = 0,
         similarMemoriesTotal = 0, averageConfidence = 0, llmDecisions = 0,
         fallbackDecisions = 0, error_text = Some msg\<rparr>,
      disabled_by = [], store_calls = []\<rparr>"

definition join_comma :: "string list \<Rightarrow> string" where
  "join_comma xs = (case xs of [] \<Rightarrow> [] | x # rest \<Rightarrow> foldl (\<lambda>acc y. acc @ '', '' @ y) x rest)"

text \<open>
  \<^verbatim>\<open>validFacts\<close>: the facts that are non-empty after trimming, trimmed.
\<close>

definition valid_facts :: "memory_operation_args \<Rightarrow> string list" where
  "valid_facts args = map trim (filter (\<lambda>f. f \<noteq> [] \<and> trim f \<noteq> []) (extractedFacts args))"

definition handler :: "memory_operation_args \<Rightarrow> services \<Rightarrow> handler_env \<Rightarrow> handler_run" where
  "handler args sv env =
     (let errors = validateMemoryOperationArgs args in
      if errors \<noteq> [] then failure_result args (''Invalid arguments: '' @ join_comma errors)
      else
        (let opts = merge_options (args_options args);
             validFacts = valid_facts args
         in
         if validFacts = [] then failure_result args ''No valid facts found after filtering''
         else
           (let st = process_facts args opts sv env 0 validFacts initial_state;
                acts = memoryActions st
            in
            \<lparr>returned =
               \<lparr>success = True, totalFacts = length (extractedFacts args),
                processedFacts = length validFacts,
                skippedFacts = length (extractedFacts args) - length validFacts,
                memory = acts, addOperations = count_event ''ADD'' acts,
                updateOperations = count_event ''UPDATE'' acts,
                deleteOperations = count_event ''DELETE'' acts,
                noneOperations = count_event ''NONE'' acts,
                similarMemoriesTotal = totalSimilarMemories st,
                averageConfidence =
                  (if acts = [] then 0 else confidenceSum st / of_nat (length acts)),
                llmDecisions = llmDecisionsUsed st,
                fallbackDecisions = fallbackDecisionsUsed st, error_text = None\<rparr>,
             disabled_by = runtimeFailures st,
             store_calls =
               (if vectorStore_available sv \<and> embedder_available sv
                then persistMemoryActions (persist_embed env) acts else [])\<rparr>)))"

section \<open>Predicates on memory actions\<close>

text \<open>
  An action whose event is one of the four operations and whose confidence lies in
  \<open>[0, 1]\<close>, and one that has also passed the confidence threshold of the handler.
\<close>

definition well_formed :: "memory_action \<Rightarrow> bool" where
  "well_formed a =
     (event a \<in> {''ADD'', ''UPDATE'', ''DELETE'', ''NONE''} \<and> 0 \<le> confidence a \<and> confidence a \<le> 1)"

definition gated :: "options \<Rightarrow> memory_action \<Rightarrow> bool" where
  "gated opts a =
     (well_formed a \<and> (js_lt (confidence a) (confidenceThreshold opts) \<longrightarrow> event a = ''NONE''))"

section \<open>Predicates on the random numbers and on identifiers\<close>




chapter \<open>The tool-calling loop of the LLM service\<close>

section \<open>Messages and the context manager\<close>

text \<open>\<^verbatim>\<open>ToolCall\<close>: \<^verbatim>\<open>{id, function: {name, arguments}}\<close>, the arguments a JSON-encoded string.\<close>

record tool_call =
  call_id :: string
  function_name :: string
  function_arguments :: string

text \<open>
  What is stored as the result of a tool call: the value the tool returned, or the object
  \<^verbatim>\<open>{ error: message }\<close>.
\<close>

datatype tool_payload = ToolValue string | ToolError string

text \<open>
  A message of the transcript: a user message, an assistant message with its content and
  tool calls, or a tool result with the id of the call it answers and the tool's name.
\<close>

datatype transcript_entry =
    UserMessage string
  | AssistantMessage "string option" "tool_call list"
  | ToolResult string string tool_payload

text \<open>
  The state a call of \<^verbatim>\<open>generate\<close> works on: the transcript held by the context manager,
  the tool executions requested from the tool manager (name and parsed arguments), the
  session events emitted, and the requests sent to the provider together with the pauses
  between them.
\<close>

record chat_request =
  req_tools :: "string list"
  req_tool_choice :: string

datatype api_event = ProviderCall nat chat_request | Sleep nat

record 'j llm_state =
  transcript :: "transcript_entry list"
  executions :: "(string \<times> 'j) list"
  emitted :: "string list"
  api_log :: "api_event list"

text \<open>
  Modelled from the spec: the class \<^verbatim>\<open>ContextManager\<close> (\<^verbatim>\<open>../messages/manager.js\<close>) is not
  among the sources. The spec describes it as holding the ordered transcript of a session,
  with \<^verbatim>\<open>addUserMessage\<close>, \<^verbatim>\<open>addAssistantMessage(text, toolCalls?)\<close> and
  \<^verbatim>\<open>addToolResult(callId, name, payload)\<close> appending one message each, insertion order
  preserved. The three operations are taken to return.
\<close>

definition addUserMessage :: "string \<Rightarrow> 'j llm_state \<Rightarrow> 'j llm_state" where
  "addUserMessage input st = st\<lparr>transcript := transcript st @ [UserMessage input]\<rparr>"

definition addAssistantMessage ::
  "string option \<Rightarrow> tool_call list \<Rightarrow> 'j llm_state \<Rightarrow> 'j llm_state" where
  "addAssistantMessage content toolCalls st =
     st\<lparr>transcript := transcript st @ [AssistantMessage content toolCalls]\<rparr>"

definition addToolResult :: "string \<Rightarrow> string \<Rightarrow> tool_payload \<Rightarrow> 'j llm_state \<Rightarrow> 'j llm_state" where
  "addToolResult callId toolName payload st =
     st\<lparr>transcript := transcript st @ [ToolResult callId toolName payload]\<rparr>"

text \<open>\<^verbatim>\<open>eventManager.emitSessionEvent\<close>, called only when an event manager and a session id exist.\<close>

definition emit :: "bool \<Rightarrow> string \<Rightarrow> 'j llm_state \<Rightarrow> 'j llm_state" where
  "emit enabled name st = (if enabled then st\<lparr>emitted := emitted st @ [name]\<rparr> else st)"

section \<open>getAIResponseWithRetries\<close>

text \<open>
  \<^verbatim>\<open>response.choices[0]?.message\<close>: the content and the tool calls of the assistant's reply.
\<close>

record assistant_reply =
  reply_content :: "string option"
  reply_tool_calls :: "tool_call list"

text \<open>
  What the collaborators answer at attempt \<open>n\<close> (counted from 1):
  \<^verbatim>\<open>contextManager.getFormattedMessage\<close>, which may throw, and
  \<^verbatim>\<open>openai.chat.completions.create\<close>, which throws or returns a response whose first choice
  has a message or none. The answers may depend on anything, the transcript included; the
  model indexes them by the attempt.
\<close>

record retry_env =
  formatted :: "nat \<Rightarrow> thrown + unit"
  completion :: "nat \<Rightarrow> chat_request \<Rightarrow> thrown + assistant_reply option"

definition MAX_ATTEMPTS :: nat where
  "MAX_ATTEMPTS = 3"

text \<open>
  The body of the \<^verbatim>\<open>try\<close> block at attempt number \<open>attempts\<close>: its outcome and the request
  it sent, if it came to send one.
\<close>

definition attempt_once ::
  "retry_env \<Rightarrow> string list \<Rightarrow> nat \<Rightarrow> (thrown + assistant_reply) \<times> api_event list" where
  "attempt_once env tls attempts =
     (case formatted env attempts of
        Inl err \<Rightarrow> (Inl err, [])
      | Inr formattedMessages \<Rightarrow>
          (let request =
                 \<lparr>req_tools = (if attempts = 1 then tls else []),
                  req_tool_choice = (if attempts = 1 then ''auto'' else ''none'')\<rparr>
           in case completion env attempts request of
                Inl err \<Rightarrow> (Inl err, [ProviderCall attempts request])
              | Inr None \<Rightarrow>
                  (Inl (ErrorObject ''Received empty message from Ollama API''),
                   [ProviderCall attempts request])
              | Inr (Some message) \<Rightarrow> (Inr message, [ProviderCall attempts request])))"

text \<open>
  \<^verbatim>\<open>while (attempts < MAX_ATTEMPTS)\<close>, entered with the given value of \<^verbatim>\<open>attempts\<close>. The
  \<^verbatim>\<open>catch\<close> block rethrows at the last attempt and otherwise waits
  \<^verbatim>\<open>500 * attempts\<close> milliseconds.
\<close>

function retry_from ::
  "retry_env \<Rightarrow> string list \<Rightarrow> nat \<Rightarrow> (thrown + assistant_reply) \<times> api_event list" where
  "retry_from env tls attempts =
     (if attempts < MAX_ATTEMPTS then
        (case attempt_once env tls (Suc attempts) of
           (Inr message, sent) \<Rightarrow> (Inr message, sent)
         | (Inl err, sent) \<Rightarrow>
             if Suc attempts \<ge> MAX_ATTEMPTS then (Inl err, sent)
             else
               (case retry_from env tls (Suc attempts) of
                  (outcome, later) \<Rightarrow> (outcome, sent @ [Sleep (500 * Suc attempts)] @ later)))
      else (Inl (ErrorObject ''Failed to get response after maximum retry attempts''), []))"
  by pat_completeness auto
termination
  by (relation "measure (\<lambda>(env, tls, attempts). MAX_ATTEMPTS - attempts)") auto

definition getAIResponseWithRetries ::
  "retry_env \<Rightarrow> string list \<Rightarrow> (thrown + assistant_reply) \<times> api_event list" where
  "getAIResponseWithRetries env tls = retry_from env tls 0"


definition failed :: "retry_env \<Rightarrow> string list \<Rightarrow> nat \<Rightarrow> bool" where
  "failed env tls n = isl (fst (attempt_once env tls n))"

section \<open>generate\<close>

text \<open>
  The collaborators of \<^verbatim>\<open>generate\<close>: \<^verbatim>\<open>JSON.parse\<close> (the rendering \<^verbatim>\<open>String(e)\<close> of the
  error it throws, or the parsed value), the tool manager's \<^verbatim>\<open>executeTool\<close> at its
  \<open>k\<close>-th call, the provider during the iteration with a given \<^verbatim>\<open>iterationCount\<close>, the
  formatted tool list, \<^verbatim>\<open>maxIterations\<close>, and whether events can be emitted.
\<close>

record 'j llm_env =
  json_parse :: "string \<Rightarrow> string + 'j"
  executeTool :: "nat \<Rightarrow> string \<Rightarrow> 'j \<Rightarrow> thrown + string"
  retry_env_of :: "nat \<Rightarrow> retry_env"
  formattedTools :: "string list"
  maxIterations :: nat
  events_enabled :: bool

text \<open>One pass of \<^verbatim>\<open>for (const toolCall of message.tool_calls)\<close>.\<close>

definition handle_tool_call :: "'j llm_env \<Rightarrow> tool_call \<Rightarrow> 'j llm_state \<Rightarrow> 'j llm_state" where
  "handle_tool_call env toolCall st =
     (let toolName = function_name toolCall in
      case json_parse env (function_arguments toolCall) of
        Inl e \<Rightarrow>
          addToolResult (call_id toolCall) toolName
            (ToolError (''Failed to parse arguments: '' @ e)) st
      | Inr args \<Rightarrow>
          (let st1 = st\<lparr>executions := executions st @ [(toolName, args)]\<rparr>
           in case executeTool env (length (executions st)) toolName args of
                Inr result \<Rightarrow> addToolResult (call_id toolCall) toolName (ToolValue result) st1
              | Inl err \<Rightarrow>
                  addToolResult (call_id toolCall) toolName (ToolError (error_message err)) st1))"

fun handle_tool_calls :: "'j llm_env \<Rightarrow> tool_call list \<Rightarrow> 'j llm_state \<Rightarrow> 'j llm_state" where
  "handle_tool_calls env [] st = st"
| "handle_tool_calls env (toolCall # rest) st =
     handle_tool_calls env rest (handle_tool_call env toolCall st)"

text \<open>\<^verbatim>\<open>message.content && message.content.trim()\<close>\<close>

definition has_text :: "string option \<Rightarrow> bool" where
  "has_text content = (case content of None \<Rightarrow> False | Some s \<Rightarrow> trim s \<noteq> [])"

text \<open>
  \<^verbatim>\<open>while (iterationCount < this.maxIterations)\<close>, entered with the given
  \<^verbatim>\<open>iterationCount\<close>. The result is the text returned or the value thrown.
\<close>

function generate_loop ::
  "'j llm_env \<Rightarrow> nat \<Rightarrow> 'j llm_state \<Rightarrow> (thrown + string) \<times> 'j llm_state" where
  "generate_loop env iterationCount st =
     (if iterationCount < maxIterations env then
        (case getAIResponseWithRetries (retry_env_of env (Suc iterationCount))
                (formattedTools env) of
           (Inl err, sent) \<Rightarrow> (Inl err, st\<lparr>api_log := api_log st @ sent\<rparr>)
         | (Inr message, sent) \<Rightarrow>
             (let st1 = st\<lparr>api_log := api_log st @ sent\<rparr> in
              if reply_tool_calls message = [] then
                (let responseText = str_or (reply_content message) []
                 in (Inr responseText,
                     emit (events_enabled env) ''llm:responseCompleted''
                       (addAssistantMessage (Some responseText) [] st1)))
              else
                (let st2 = (if has_text (reply_content message)
                            then emit (events_enabled env) ''llm:thinking'' st1 else st1);
                     st3 = addAssistantMessage (reply_content message)
                             (reply_tool_calls message) st2
                 in generate_loop env (Suc iterationCount)
                      (handle_tool_calls env (reply_tool_calls message) st3))))
      else (Inl (ErrorObject ''Maximum iterations exceeded''), st))"
  by pat_completeness auto
termination
  by (relation "measure (\<lambda>(env, iterationCount, st). maxIterations env - iterationCount)") auto

definition generate ::
  "'j llm_env \<Rightarrow> string \<Rightarrow> 'j llm_state \<Rightarrow> (thrown + string) \<times> 'j llm_state" where
  "generate env userInput st =
     generate_loop env 0
       (emit (events_enabled env) ''llm:responseStarted'' (addUserMessage userInput st))"

chapter \<open>The session runtime\<close>

section \<open>The background work of a turn\<close>

text \<open>
  The state of the promise \<^verbatim>\<open>backgroundOperations\<close> once the callback scheduled by
  \<^verbatim>\<open>setImmediate\<close> has run.
\<close>

datatype promise_state = Pending | Resolved | Rejected thrown

text \<open>
  The status check of the embedding manager is written twice in the source: in the
  callback that \<^verbatim>\<open>run\<close> schedules, outside every \<^verbatim>\<open>try\<close>, and at the start of the
  \<^verbatim>\<open>try\<close> block of \<^verbatim>\<open>enforceMemoryExtraction\<close>.
\<close>

datatype check_site = BackgroundCallback | MemoryExtraction

text \<open>
  A value of the object that \<^verbatim>\<open>getEmbeddingStatus()\<close> returns: \<^verbatim>\<open>null\<close> or
  \<^verbatim>\<open>undefined\<close>, on which reading \<^verbatim>\<open>status.status\<close> throws a \<^verbatim>\<open>TypeError\<close>, or an
  object with its \<^verbatim>\<open>status\<close>.
\<close>

datatype embedder_status = Nullish | Status string

text \<open>
  What the embedding manager (\<^verbatim>\<open>services.embeddingManager\<close>, of type \<^verbatim>\<open>any\<close>) answers to
  one status check: \<^verbatim>\<open>EmbeddingSystemState.getInstance().isDisabled()\<close> (\<open>None\<close> when the
  \<^verbatim>\<open>require\<close> around it throws, which the source catches), \<^verbatim>\<open>hasAvailableEmbeddings()\<close>,
  which returns or throws (also when the manager has no such method), and
  \<^verbatim>\<open>getEmbeddingStatus()\<close>, which throws or returns something falsy (\<open>None\<close>) or an
  object with these values.
\<close>

record embedding_manager =
  system_disabled :: "bool option"
  hasAvailableEmbeddings :: "thrown + bool"
  getEmbeddingStatus :: "thrown + embedder_status list option"

text \<open>
  What a memory tool returns through \<^verbatim>\<open>executeToolWithoutLoading\<close>: \<^verbatim>\<open>success\<close> and the
  number of memory actions.
\<close>

record tool_outcome =
  outcome_success :: bool
  outcome_actions :: nat

text \<open>
  The environment of the background work: the environment variables, the services of the
  session, and the answer of every call that can throw. A tool may return
  \<^verbatim>\<open>undefined\<close> (\<open>None\<close>), on which the property reads of the source throw a
  \<^verbatim>\<open>TypeError\<close>. \<open>extract_reasoning_steps\<close> gives \<^verbatim>\<open>success\<close> and the number of
  steps, \<open>evaluate_reasoning\<close> gives \<^verbatim>\<open>shouldStore\<close>.
\<close>

record memory_env =
  DISABLE_EMBEDDINGS :: bool
  EMBEDDING_DISABLED :: bool
  USE_WORKSPACE_MEMORY :: bool
  DISABLE_DEFAULT_MEMORY :: bool
  DISABLE_REFLECTION_MEMORY :: bool
  embeddingManager :: "(check_site \<Rightarrow> embedding_manager) option"
  unifiedToolManager :: bool
  interactionData :: "thrown + string list"
  sessionMetadata :: "thrown + unit"
  workspace_store :: "thrown + tool_outcome option"
  extract_and_operate_memory :: "thrown + tool_outcome option"
  getAllTools :: "thrown + string list"
  reasoningDetector :: bool
  detectReasoningContent :: "thrown + bool"
  extract_reasoning_steps :: "thrown + (bool \<times> nat) option"
  evaluate_reasoning :: "thrown + bool option"
  store_reasoning_memory :: "thrown + unit"

definition embeddingsDisabled :: "memory_env \<Rightarrow> bool" where
  "embeddingsDisabled env = (DISABLE_EMBEDDINGS env \<or> EMBEDDING_DISABLED env)"

text \<open>
  The status check at one of its two places: the value of \<^verbatim>\<open>embeddingManagerDisabled\<close>
  after it, or what one of the calls threw. \<^verbatim>\<open>Array.prototype.filter\<close> reads
  \<^verbatim>\<open>status.status\<close> of every value.
\<close>

definition embeddingManagerDisabled :: "check_site \<Rightarrow> memory_env \<Rightarrow> thrown + bool" where
  "embeddingManagerDisabled site env =
     (case embeddingManager env of
        None \<Rightarrow> Inr False
      | Some manager \<Rightarrow>
          (case hasAvailableEmbeddings (manager site) of
             Inl err \<Rightarrow> Inl err
           | Inr available \<Rightarrow>
               (case getEmbeddingStatus (manager site) of
                  Inl err \<Rightarrow> Inl err
                | Inr None \<Rightarrow> Inr (system_disabled (manager site) = Some True \<or> \<not> available)
                | Inr (Some statuses) \<Rightarrow>
                    if Nullish \<in> set statuses
                    then Inl (ErrorObject ''Cannot read properties of undefined'')
                    else Inr (system_disabled (manager site) = Some True \<or> \<not> available
                              \<or> filter (\<lambda>s. s = Status ''DISABLED'') statuses \<noteq> []))))"

text \<open>
  The functions below return the value thrown or \<open>()\<close>, paired with the lines logged.
  \<open>reflection_steps\<close> is the \<^verbatim>\<open>try\<close> block of
  \<^verbatim>\<open>enforceReflectionMemoryProcessing\<close>; the three tool calls have handlers of their own
  that log and return.
\<close>

definition reflection_steps :: "memory_env \<Rightarrow> string list \<Rightarrow> (thrown + unit) \<times> string list" where
  "reflection_steps env allTools =
     (if \<not> unifiedToolManager env then
        (Inr (), [''UnifiedToolManager not available, skipping reflection memory processing''])
      else if embeddingsDisabled env
              \<or> \<not> (''cipher_extract_reasoning_steps'' \<in> set allTools
                    \<and> ''cipher_store_reasoning_memory'' \<in> set allTools) then
        (Inr (), [''Reflection memory processing skipped''])
      else if DISABLE_REFLECTION_MEMORY env then
        (Inr (), [''Reflection memory force disabled''])
      else if \<not> reasoningDetector env then
        (Inr (), [''Reasoning detector not available, skipping reflection processing''])
      else
        (case detectReasoningContent env of
           Inl err \<Rightarrow> (Inl err, [])
         | Inr containsReasoning \<Rightarrow>
             if \<not> containsReasoning then (Inr (), [''No reasoning content detected''])
             else
               (case extract_reasoning_steps env of
                  Inl err \<Rightarrow> (Inr (), [''Reasoning extraction failed''])
                | Inr None \<Rightarrow> (Inr (), [''Reasoning extraction failed''])
                | Inr (Some (ok, steps)) \<Rightarrow>
                    if \<not> ok \<or> steps = 0 then (Inr (), [''Reasoning extraction completed''])
                    else
                      (case evaluate_reasoning env of
                         Inl err \<Rightarrow>
                           (Inr (), [''Reasoning extraction completed'',
                                     ''Reasoning evaluation failed''])
                       | Inr None \<Rightarrow>
                           (Inr (), [''Reasoning extraction completed'',
                                     ''Reasoning evaluation failed''])
                       | Inr (Some shouldStore) \<Rightarrow>
                           if \<not> shouldStore then
                             (Inr (), [''Reasoning extraction completed'',
                                       ''Reasoning evaluation completed'',
                                       ''Evaluation indicates should not store''])
                           else
                             (case store_reasoning_memory env of
                                Inl err \<Rightarrow>
                                  (Inr (), [''Reasoning extraction completed'',
                                            ''Reasoning evaluation completed'',
                                            ''Reflection memory storage failed''])
                              | Inr stored \<Rightarrow>
                                  (Inr (), [''Reasoning extraction completed'',
                                            ''Reasoning evaluation completed'',
                                            ''Reflection memory storage completed'']))))))"

text \<open>The \<^verbatim>\<open>catch\<close> of \<^verbatim>\<open>enforceReflectionMemoryProcessing\<close> logs and returns.\<close>

definition enforceReflectionMemoryProcessing ::
  "memory_env \<Rightarrow> string list \<Rightarrow> (thrown + unit) \<times> string list" where
  "enforceReflectionMemoryProcessing env allTools =
     (case reflection_steps env allTools of
        (Inl err, logged) \<Rightarrow> (Inr (), logged @ [''Reflection memory processing failed''])
      | (Inr done, logged) \<Rightarrow> (Inr (), logged))"

text \<open>
  One memory tool: the results pushed to \<^verbatim>\<open>memoryResults\<close> and the lines logged. A thrown
  value is caught and logged.
\<close>

definition run_memory_tool ::
  "bool \<Rightarrow> thrown + tool_outcome option \<Rightarrow> string \<Rightarrow> tool_outcome option list \<times> string list" where
  "run_memory_tool should_run answer name =
     (if should_run then
        (case answer of
           Inl err \<Rightarrow> ([], [name @ '' execution failed''])
         | Inr outcome \<Rightarrow> ([outcome], [name @ '' executed successfully'']))
      else ([], []))"

text \<open>
  The \<^verbatim>\<open>try\<close> block of \<^verbatim>\<open>enforceMemoryExtraction\<close>. The loop that aggregates
  \<^verbatim>\<open>memoryResults\<close> reads \<^verbatim>\<open>result.success\<close> and throws on a result that is
  \<^verbatim>\<open>undefined\<close>.
\<close>

definition memory_extraction_steps :: "memory_env \<Rightarrow> (thrown + unit) \<times> string list" where
  "memory_extraction_steps env =
     (case embeddingManagerDisabled MemoryExtraction env of
        Inl err \<Rightarrow> (Inl err, [])
      | Inr managerDisabled \<Rightarrow>
      if embeddingsDisabled env \<or> managerDisabled then
        (Inr (), [''Embeddings disabled, skipping memory extraction''])
      else if \<not> unifiedToolManager env then
        (Inr (), [''UnifiedToolManager not available, skipping memory extraction''])
      else
        (let shouldRunWorkspace = USE_WORKSPACE_MEMORY env;
             shouldRunDefault = (\<not> (USE_WORKSPACE_MEMORY env \<and> DISABLE_DEFAULT_MEMORY env))
         in if embeddingsDisabled env then
              (Inr (), [''Memory extraction skipped - embeddings disabled''])
            else
              (case interactionData env of
                 Inl err \<Rightarrow> (Inl err, [])
               | Inr comprehensiveInteractionData \<Rightarrow>
                   (case sessionMetadata env of
                      Inl err \<Rightarrow> (Inl err, [])
                    | Inr memoryMetadata \<Rightarrow>
                        (case run_memory_tool shouldRunWorkspace (workspace_store env)
                                ''cipher_workspace_store'' of
                           (ws, ws_log) \<Rightarrow>
                             (case run_memory_tool shouldRunDefault
                                     (extract_and_operate_memory env)
                                     ''cipher_extract_and_operate_memory'' of
                                (df, df_log) \<Rightarrow>
                                  if ws @ df = [] then
                                    (Inr (), ws_log @ df_log
                                             @ [''No memory tools executed successfully''])
                                  else if None \<in> set (ws @ df) then
                                    (Inl (ErrorObject ''Cannot read properties of undefined''),
                                     ws_log @ df_log)
                                  else
                                    (case getAllTools env of
                                       Inl err \<Rightarrow>
                                         (Inl err, ws_log @ df_log
                                                   @ [''Memory extraction completed''])
                                     | Inr allTools \<Rightarrow>
                                         (case enforceReflectionMemoryProcessing env allTools of
                                            (outcome, rf_log) \<Rightarrow>
                                              (outcome, ws_log @ df_log
                                                        @ [''Memory extraction completed'']
                                                        @ rf_log)))))))))"

text \<open>The \<^verbatim>\<open>catch\<close> of \<^verbatim>\<open>enforceMemoryExtraction\<close> logs the error and returns.\<close>

definition enforceMemoryExtraction :: "memory_env \<Rightarrow> (thrown + unit) \<times> string list" where
  "enforceMemoryExtraction env =
     (case memory_extraction_steps env of
        (Inl err, logged) \<Rightarrow>
          (Inr (), logged @ [''Memory extraction failed: '' @ error_message err])
      | (Inr done, logged) \<Rightarrow> (Inr (), logged))"

text \<open>
  The callback given to \<^verbatim>\<open>setImmediate\<close>: whether it called \<^verbatim>\<open>resolve\<close>, and the lines
  logged. Its status check is outside every \<^verbatim>\<open>try\<close>: when a call of the check throws,
  the callback ends there and \<^verbatim>\<open>resolve\<close> is not reached. The executor of the promise
  takes no \<^verbatim>\<open>reject\<close> function.
\<close>

definition background_callback :: "memory_env \<Rightarrow> bool \<times> string list" where
  "background_callback env =
     (case embeddingManagerDisabled BackgroundCallback env of
        Inl err \<Rightarrow> (False, [])
      | Inr managerDisabled \<Rightarrow>
          if embeddingsDisabled env \<or> managerDisabled then
            (True, [''Skipping all background memory operations - embeddings disabled''])
          else
            (case enforceMemoryExtraction env of
               (Inr done, logged) \<Rightarrow>
                 (True, [''Starting background memory operations''] @ logged
                        @ [''Background memory operations completed successfully''])
             | (Inl err, logged) \<Rightarrow>
                 (True, [''Starting background memory operations''] @ logged
                        @ [''Background memory extraction failed''])))"

section \<open>run\<close>

record image_data =
  image :: string
  mimeType :: string

text \<open>
  The foreground collaborators of a turn: whether \<^verbatim>\<open>init()\<close> has run,
  \<^verbatim>\<open>getLLMServiceLazy()\<close>, and \<^verbatim>\<open>llmService.generate(input, ...)\<close>.
  \<^verbatim>\<open>initializeReasoningServices\<close>, \<^verbatim>\<open>restoreHistoryLazy\<close> and the emission of
  \<^verbatim>\<open>llm:thinking\<close> catch what they throw and do not change the result.
\<close>

record turn_env =
  servicesInitialized :: bool
  getLLMService :: "thrown + unit"
  llm_generate :: "string \<Rightarrow> thrown + string"

record run_result =
  response :: string
  backgroundOperations :: promise_state
  background_log :: "string list"

definition run ::
  "turn_env \<Rightarrow> memory_env \<Rightarrow> string \<Rightarrow> image_data option \<Rightarrow> thrown + run_result" where
  "run tenv menv input imageDataInput =
     (if trim input = [] then Inl (ErrorObject ''Input must be a non-empty string'')
      else if \<not> servicesInitialized tenv then
        Inl (ErrorObject ''ConversationSession is not initialized. Call init() before run().'')
      else if (case imageDataInput of
                 None \<Rightarrow> False
               | Some img \<Rightarrow> image img = [] \<or> mimeType img = []) then
        Inl (ErrorObject ''imageDataInput must have image and mimeType as non-empty strings'')
      else
        (case getLLMService tenv of
           Inl err \<Rightarrow> Inl err
         | Inr llmService \<Rightarrow>
             (case llm_generate tenv input of
                Inl err \<Rightarrow> Inl err
              | Inr answer \<Rightarrow>
                  (case background_callback menv of
                     (resolved, logged) \<Rightarrow>
                       Inr \<lparr>response = answer,
                            backgroundOperations = (if resolved then Resolved else Pending),
                            background_log = logged\<rparr>))))"

section \<open>Persistence: the history providers\<close>

text \<open>
  Modelled from the spec: the history providers (\<^verbatim>\<open>../brain/llm/messages/history/\<close>) are not
  among the sources. The spec names three: the database provider, which saves messages "to
  a table keyed by (sessionId, seq)"; the WAL provider; and the multi-backend provider,
  which "owns a primary, a backup, and a WAL. Writes go to the WAL synchronously and are
  fanned out to primary and backup on the flush tick. Reads prefer primary". A session
  holds a database provider or a multi-backend provider.

  The stores are the table of the database provider, a sequence of messages for every
  session id, and the write-ahead log of the multi-backend provider. What primary and backup
  hold depends on the flush timer, so what a read of the multi-backend provider returns is
  an answer of the environment, like the answers of the other collaborators; a write to it
  is an entry of the log, and \<^verbatim>\<open>clearHistory\<close>, of which the spec says nothing for this
  provider, is taken as a write. Every operation can fail with a \<^verbatim>\<open>HistoryProviderError\<close>, and
  an operation that fails leaves the stores as they were. The type \<open>'m\<close> of messages is
  arbitrary.
\<close>

datatype provider = DatabaseProvider | MultiBackendProvider

datatype 'm wal_entry = SaveEntry string 'm | ClearEntry string

record 'm stores =
  table :: "string \<Rightarrow> 'm list"
  wal :: "'m wal_entry list"

definition getHistory ::
  "provider \<Rightarrow> thrown option \<Rightarrow> 'm list \<Rightarrow> 'm stores \<Rightarrow> string \<Rightarrow> thrown + 'm list" where
  "getHistory p fault multi_read st sid =
     (case fault of
        Some err \<Rightarrow> Inl err
      | None \<Rightarrow>
          (case p of
             DatabaseProvider \<Rightarrow> Inr (table st sid)
           | MultiBackendProvider \<Rightarrow> Inr multi_read))"

definition clearHistory ::
  "provider \<Rightarrow> thrown option \<Rightarrow> 'm stores \<Rightarrow> string \<Rightarrow> thrown + 'm stores" where
  "clearHistory p fault st sid =
     (case fault of
        Some err \<Rightarrow> Inl err
      | None \<Rightarrow>
          (case p of
             DatabaseProvider \<Rightarrow> Inr (st\<lparr>table := (table st)(sid := [])\<rparr>)
           | MultiBackendProvider \<Rightarrow> Inr (st\<lparr>wal := wal st @ [ClearEntry sid]\<rparr>)))"

definition saveMessage ::
  "provider \<Rightarrow> thrown option \<Rightarrow> 'm stores \<Rightarrow> string \<Rightarrow> 'm \<Rightarrow> thrown + 'm stores" where
  "saveMessage p fault st sid message =
     (case fault of
        Some err \<Rightarrow> Inl err
      | None \<Rightarrow>
          (case p of
             DatabaseProvider \<Rightarrow> Inr (st\<lparr>table := (table st)(sid := table st sid @ [message])\<rparr>)
           | MultiBackendProvider \<Rightarrow> Inr (st\<lparr>wal := wal st @ [SaveEntry sid message]\<rparr>)))"

section \<open>Persistence: sessions and records\<close>

text \<open>\<^verbatim>\<open>historyBackend: 'database' | 'memory'\<close>\<close>

datatype backend = Database | Memory

text \<open>
  The fields of a \<^verbatim>\<open>ConversationSession\<close> that persistence reads and writes.
  \<open>storageManager\<close> says that \<^verbatim>\<open>_storageManager\<close> is set, \<open>historyProvider\<close> is
  \<^verbatim>\<open>_historyProvider\<close>, and \<open>context_messages\<close> is the transcript held by the context
  manager (\<open>None\<close> before \<^verbatim>\<open>init()\<close>).
\<close>

record 'm session =
  session_id :: string
  historyEnabled :: bool
  historyBackend :: backend
  storageManager :: bool
  storageInitialized :: bool
  historyProvider :: "provider option"
  context_messages :: "'m list option"
  sessionMemoryMetadata :: "(string \<times> string) list option"
  metadataSchema :: bool

text \<open>
  \<^verbatim>\<open>SerializedSession\<close>. The constructor of a session keeps its defaults for
  \<^verbatim>\<open>historyEnabled\<close> and \<^verbatim>\<open>historyBackend\<close> when the record does not give them.
\<close>

record 'm serialized_session =
  ser_id :: string
  createdAt :: int
  lastActivity :: int
  ser_sessionMemoryMetadata :: "(string \<times> string) list option"
  ser_historyEnabled :: "bool option"
  ser_historyBackend :: "backend option"
  conversationHistory :: "'m list"
  hadMetadataSchema :: bool
  version :: string
  serializedAt :: int

text \<open>
  \<^verbatim>\<open>serialize\<close>. \<open>read_error\<close> is the failure of \<^verbatim>\<open>getHistory\<close>, if any, \<open>multi_read\<close>
  the answer of a multi-backend provider, \<open>clock\<close> is \<^verbatim>\<open>Date.now()\<close>. The read has a
  handler that leaves the history empty; \<^verbatim>\<open>getRawMessages()\<close> returns the array that the
  context manager holds. The constant \<^verbatim>\<open>SESSION_PERSISTENCE_CONSTANTS.CURRENT_VERSION\<close> is
  declared in \<^verbatim>\<open>./persistence-types.js\<close>, which is not among the sources, so it is the
  parameter \<open>current_version\<close>; a record of another version is restored all the same,
  after a warning.
\<close>

definition serialize ::
  "string \<Rightarrow> 'm session \<Rightarrow> 'm stores \<Rightarrow> thrown option \<Rightarrow> 'm list \<Rightarrow> int
     \<Rightarrow> 'm serialized_session" where
  "serialize current_version s st read_error multi_read clock =
     (let fromProvider =
            (case historyProvider s of
               None \<Rightarrow> []
             | Some p \<Rightarrow>
                 if historyEnabled s then
                   (case getHistory p read_error multi_read st (session_id s) of
                      Inl err \<Rightarrow> []
                    | Inr history \<Rightarrow> history)
                 else []);
          history =
            (if fromProvider = [] then
               (case context_messages s of
                  None \<Rightarrow> fromProvider
                | Some contextHistory \<Rightarrow>
                    if contextHistory \<noteq> [] then contextHistory else fromProvider)
             else fromProvider)
      in \<lparr>ser_id = session_id s, createdAt = clock, lastActivity = clock,
          ser_sessionMemoryMetadata = sessionMemoryMetadata s,
          ser_historyEnabled = Some (historyEnabled s),
          ser_historyBackend = Some (historyBackend s),
          conversationHistory = history, hadMetadataSchema = metadataSchema s,
          version = current_version, serializedAt = clock\<rparr>)"

section \<open>Persistence: restoring a session\<close>

text \<open>
  What the collaborators answer during one restoration.
  \<^item> \<open>init_error\<close>: what \<^verbatim>\<open>session.init()\<close> throws, if anything.
  \<^item> \<open>CIPHER_MULTI_BACKEND\<close>: the environment variable that selects the multi-backend
    provider.
  \<^item> For the \<open>n\<close>-th run of \<^verbatim>\<open>getStorageManagerLazy\<close>: whether
    \<^verbatim>\<open>new StorageManager(config)\<close> returns, whether \<^verbatim>\<open>connect()\<close> returns, whether
    \<^verbatim>\<open>createDatabaseHistoryProvider\<close> returns there, and whether the two connections and the
    constructors of the multi-backend provider all return; and whether
    \<^verbatim>\<open>createDatabaseHistoryProvider\<close> returns in the \<open>n\<close>-th run of
    \<^verbatim>\<open>getHistoryProviderLazy\<close>.
  \<^item> The failures of the provider: of \<^verbatim>\<open>clearHistory\<close>, of the \<open>k\<close>-th
    \<^verbatim>\<open>saveMessage\<close>, and of the \<^verbatim>\<open>getHistory\<close> in \<^verbatim>\<open>refreshConversationHistory\<close>;
    and what the multi-backend provider returns at its \<open>k\<close>-th read.
  \<^item> The context manager: which of the methods that the source tests for it has, and what
    \<^verbatim>\<open>clearMessages\<close>, \<^verbatim>\<open>restoreHistory\<close>, \<^verbatim>\<open>setMessages\<close> and the \<open>k\<close>-th
    \<^verbatim>\<open>addMessage\<close> throw, if anything.
\<close>

record 'm restore_env =
  init_error :: "thrown option"
  CIPHER_MULTI_BACKEND :: bool
  storage_constructs :: "nat \<Rightarrow> bool"
  storage_connects :: "nat \<Rightarrow> bool"
  provider_created :: "nat \<Rightarrow> bool"
  multi_backend_built :: "nat \<Rightarrow> bool"
  provider_created_lazily :: "nat \<Rightarrow> bool"
  clearHistory_error :: "thrown option"
  saveMessage_error :: "nat \<Rightarrow> thrown option"
  getHistory_error :: "thrown option"
  multi_backend_read :: "nat \<Rightarrow> 'm list"
  has_clearMessages :: bool
  clearMessages_error :: "thrown option"
  has_restoreHistory :: bool
  restoreHistory_error :: "thrown option"
  has_setMessages :: bool
  setMessages_error :: "thrown option"
  addMessage_error :: "nat \<Rightarrow> thrown option"

text \<open>
  \<^verbatim>\<open>getStorageManagerLazy\<close>, at its \<open>n\<close>-th run. Everything thrown inside is caught with
  \<^verbatim>\<open>// Continue without storage manager\<close>, and \<^verbatim>\<open>_storageInitialized\<close> is then not
  set. For the database backend \<^verbatim>\<open>_storageManager\<close> is assigned before \<^verbatim>\<open>connect()\<close>
  is awaited, so it stays set when \<^verbatim>\<open>connect()\<close> throws. For the memory backend no
  provider is made.
\<close>

definition getStorageManagerLazy :: "'m restore_env \<Rightarrow> nat \<Rightarrow> 'm session \<Rightarrow> 'm session" where
  "getStorageManagerLazy env n s =
     (if storageInitialized s then s
      else if \<not> historyEnabled s then s\<lparr>storageInitialized := True\<rparr>
      else if CIPHER_MULTI_BACKEND env then
        (if multi_backend_built env n
         then s\<lparr>historyProvider := Some MultiBackendProvider, storageInitialized := True\<rparr>
         else s)
      else if historyBackend s = Database then
        (if storageManager s then
           (if provider_created env n
            then s\<lparr>historyProvider := Some DatabaseProvider, storageInitialized := True\<rparr>
            else s)
         else if \<not> storage_constructs env n then s
         else if \<not> storage_connects env n then s\<lparr>storageManager := True\<rparr>
         else if provider_created env n
         then s\<lparr>storageManager := True, historyProvider := Some DatabaseProvider,
                storageInitialized := True\<rparr>
         else s\<lparr>storageManager := True\<rparr>)
      else s\<lparr>storageInitialized := True\<rparr>)"

text \<open>
  \<^verbatim>\<open>getHistoryProviderLazy\<close>, at its \<open>n\<close>-th run: the session afterwards, whose
  \<open>historyProvider\<close> is what the method returns. When there is still no provider but a
  storage manager, a database provider is made over it.
\<close>

definition getHistoryProviderLazy :: "'m restore_env \<Rightarrow> nat \<Rightarrow> 'm session \<Rightarrow> 'm session" where
  "getHistoryProviderLazy env n s =
     (let s1 = (if \<not> storageInitialized s then getStorageManagerLazy env n s else s)
      in if historyProvider s1 = None \<and> historyEnabled s1 \<and> storageManager s1
            \<and> provider_created_lazily env n
         then s1\<lparr>historyProvider := Some DatabaseProvider\<rparr>
         else s1)"

text \<open>The loop \<^verbatim>\<open>for (const message of data.conversationHistory)\<close>, from the \<open>k\<close>-th save on.\<close>

fun save_all ::
  "provider \<Rightarrow> (nat \<Rightarrow> thrown option) \<Rightarrow> nat \<Rightarrow> string \<Rightarrow> 'm list \<Rightarrow> 'm stores
     \<Rightarrow> (thrown + unit) \<times> 'm stores" where
  "save_all p faults k sid [] st = (Inr (), st)"
| "save_all p faults k sid (message # rest) st =
     (case saveMessage p (faults k) st sid message of
        Inl err \<Rightarrow> (Inl err, st)
      | Inr saved \<Rightarrow> save_all p faults (Suc k) sid rest saved)"

text \<open>
  Modelled from the spec: the class \<^verbatim>\<open>ContextManager\<close> is not among the sources. The spec
  describes it as holding the ordered transcript, with \<^verbatim>\<open>clearMessages()\<close>,
  \<^verbatim>\<open>setMessages(list)\<close> and \<^verbatim>\<open>restoreHistory()\<close>, which loads the sequence that its history
  provider holds, and with the invariant that "after any append, the message is durably
  saved to the history provider" before the append returns: \<^verbatim>\<open>addMessage\<close> appends the
  message to the transcript and saves it to the provider. An operation that throws leaves
  transcript and stores as they were.

  Method 3 of \<^verbatim>\<open>refreshConversationHistory\<close>: one \<^verbatim>\<open>addMessage\<close> per message, a failed
  one logged and skipped. The result is the transcript of the context manager and the
  stores.
\<close>

fun add_each ::
  "provider \<Rightarrow> (nat \<Rightarrow> thrown option) \<Rightarrow> nat \<Rightarrow> string \<Rightarrow> 'm list \<Rightarrow> 'm list \<times> 'm stores
     \<Rightarrow> 'm list \<times> 'm stores" where
  "add_each p faults k sid [] held = held"
| "add_each p faults k sid (message # rest) held =
     (case saveMessage p (faults k) (snd held) sid message of
        Inl err \<Rightarrow> add_each p faults (Suc k) sid rest held
      | Inr saved \<Rightarrow> add_each p faults (Suc k) sid rest (fst held @ [message], saved))"

text \<open>
  \<^verbatim>\<open>refreshConversationHistory\<close>, which runs \<^verbatim>\<open>getHistoryProviderLazy\<close> for the \<open>n\<close>-th
  time: the session and the stores afterwards. Everything thrown inside is caught and
  logged: by \<^verbatim>\<open>clearMessages\<close> or by the read of the provider, which ends the refresh, or by
  one of the three methods of restoration, which are tried in order until one succeeds.
\<close>

definition refreshConversationHistory ::
  "'m restore_env \<Rightarrow> nat \<Rightarrow> 'm session \<Rightarrow> 'm stores \<Rightarrow> 'm session \<times> 'm stores" where
  "refreshConversationHistory env n s st =
     (if historyEnabled s \<and> context_messages s \<noteq> None then
        (if has_clearMessages env \<and> clearMessages_error env \<noteq> None then (s, st)
         else
           (let cleared = (if has_clearMessages env then s\<lparr>context_messages := Some []\<rparr> else s);
                s1 = getHistoryProviderLazy env n cleared
            in case historyProvider s1 of
                 None \<Rightarrow> (s1, st)
               | Some p \<Rightarrow>
                   (case getHistory p (getHistory_error env) (multi_backend_read env 0) st
                           (session_id s1) of
                      Inl err \<Rightarrow> (s1, st)
                    | Inr history \<Rightarrow>
                        if has_restoreHistory env \<and> restoreHistory_error env = None then
                          (s1\<lparr>context_messages :=
                                 Some (case p of
                                         DatabaseProvider \<Rightarrow> table st (session_id s1)
                                       | MultiBackendProvider \<Rightarrow> multi_backend_read env 1)\<rparr>,
                           st)
                        else if has_setMessages env \<and> setMessages_error env = None then
                          (s1\<lparr>context_messages := Some history\<rparr>, st)
                        else
                          (case add_each p (addMessage_error env) 0 (session_id s1) history
                                  (case context_messages s1 of None \<Rightarrow> [] | Some held \<Rightarrow> held, st) of
                             (held, saved) \<Rightarrow> (s1\<lparr>context_messages := Some held\<rparr>, saved)))))
      else (s, st))"

text \<open>
  \<^verbatim>\<open>deserialize\<close>: the restored session and the stores afterwards, or the
  \<^verbatim>\<open>SessionPersistenceError\<close> that wraps a failure of \<^verbatim>\<open>init()\<close>. The new session is
  built without a shared storage manager. Everything thrown while the history is restored
  is caught with \<^verbatim>\<open>// Continue without history rather than failing\<close>.
\<close>

definition new_session :: "'m serialized_session \<Rightarrow> 'm session" where
  "new_session data =
     \<lparr>session_id = ser_id data,
      historyEnabled = (case ser_historyEnabled data of None \<Rightarrow> True | Some b \<Rightarrow> b),
      historyBackend = (case ser_historyBackend data of None \<Rightarrow> Database | Some b \<Rightarrow> b),
      storageManager = False, storageInitialized = False, historyProvider = None,
      context_messages = Some [],
      sessionMemoryMetadata = ser_sessionMemoryMetadata data,
      metadataSchema = False\<rparr>"

definition deserialize ::
  "'m restore_env \<Rightarrow> 'm serialized_session \<Rightarrow> 'm stores \<Rightarrow> thrown + 'm session \<times> 'm stores" where
  "deserialize env data st =
     (case init_error env of
        Some err \<Rightarrow> Inl (ErrorObject (''Failed to deserialize session '' @ ser_id data))
      | None \<Rightarrow>
          if conversationHistory data = [] then Inr (new_session data, st)
          else
            (let s1 = getHistoryProviderLazy env 0 (new_session data)
             in case historyProvider s1 of
                  None \<Rightarrow> Inr (refreshConversationHistory env 1 s1 st)
                | Some p \<Rightarrow>
                    (case clearHistory p (clearHistory_error env) st (ser_id data) of
                       Inl err \<Rightarrow> Inr (s1, st)
                     | Inr cleared \<Rightarrow>
                         (case save_all p (saveMessage_error env) 0 (ser_id data)
                                 (conversationHistory data) cleared of
                            (Inl err, partly) \<Rightarrow> Inr (s1, partly)
                          | (Inr saved, restored) \<Rightarrow>
                              Inr (refreshConversationHistory env 1 s1 restored)))))"






section \<open>Sample inputs\<close>

text \<open>Concrete inputs at which the theorems below are instantiated.\<close>

definition sample_entropy :: entropy where
  "sample_entropy = \<lparr>now = 1700000000123, random1 = 1 / 2, random2 = 0\<rparr>"

definition sample_hit :: "rat \<Rightarrow> search_hit" where
  "sample_hit s =
     \<lparr>hit_id = Some 42, score = Some s, payload_id = None,
      payload_data = Some ''def defines functions in Python'', hit_text = None\<rparr>"

text \<open>A hit without a payload, whose text is in \<^verbatim>\<open>text\<close>.\<close>

definition text_hit :: "rat \<Rightarrow> search_hit" where
  "text_hit s =
     \<lparr>hit_id = Some 43, score = Some s, payload_id = None, payload_data = None,
      hit_text = Some ''Python functions start with def''\<rparr>"

definition sample_services :: services where
  "sample_services =
     \<lparr>embedder_available = True, vectorStore_available = True, llmService_available = True\<rparr>"

definition sample_args :: memory_operation_args where
  "sample_args =
     \<lparr>extractedFacts = [''In Python, def defines a function.''], existingMemories = None,
      args_options = None\<rparr>"

text \<open>
  The same fact, with \<^verbatim>\<open>options = { confidenceThreshold: 0.95 }\<close> and with
  \<^verbatim>\<open>options = { confidenceThreshold: undefined }\<close>.
\<close>

definition no_options :: options_arg where
  "no_options =
     \<lparr>arg_similarityThreshold = Absent, arg_maxSimilarResults = Absent,
      arg_enableBatchProcessing = Absent, arg_useLLMDecisions = Absent,
      arg_confidenceThreshold = Absent, arg_enableDeleteOperations = Absent\<rparr>"

definition strict_args :: memory_operation_args where
  "strict_args =
     \<lparr>extractedFacts = [''In Python, def defines a function.''], existingMemories = None,
      args_options = Some (no_options\<lparr>arg_confidenceThreshold := Value (Num (95 / 100))\<rparr>)\<rparr>"

definition undefined_threshold_args :: memory_operation_args where
  "undefined_threshold_args =
     \<lparr>extractedFacts = [''In Python, def defines a function.''], existingMemories = None,
      args_options = Some (no_options\<lparr>arg_confidenceThreshold := Undefined\<rparr>)\<rparr>"

text \<open>An environment in which the embedder throws an \<^verbatim>\<open>Error\<close> for every fact.\<close>

definition failing_embed_env :: handler_env where
  "failing_embed_env =
     \<lparr>extractCodePattern = (\<lambda>f. None),
      fact_env_of =
        (\<lambda>i. \<lparr>embed = Inl (ErrorObject ''embedding backend unreachable''), search = Inr [],
               llm_answer = Inr None, id_entropy = sample_entropy,
               fallback_entropy = sample_entropy\<rparr>),
      persist_embed = (\<lambda>k. Inr ())\<rparr>"

text \<open>
  An environment in which the search finds one memory at score 0.82 and the decision LLM
  answers \<^verbatim>\<open>{"operation": "UPDATE", "confidence": 0.9, "targetMemoryId": 400000}\<close>.
\<close>

definition llm_target_env :: handler_env where
  "llm_target_env =
     \<lparr>extractCodePattern = (\<lambda>f. None),
      fact_env_of =
        (\<lambda>i. \<lparr>embed = Inr (), search = Inr [sample_hit (82 / 100)],
               llm_answer =
                 Inr (Some \<lparr>operation = ''UPDATE'', decision_confidence = 9 / 10,
                            targetMemoryId = Some 400000\<rparr>),
               id_entropy = sample_entropy, fallback_entropy = sample_entropy\<rparr>),
      persist_embed = (\<lambda>k. Inr ())\<rparr>"

text \<open>
  An environment in which the search finds nothing and the decision LLM answers
  \<^verbatim>\<open>{"operation": "ADD", "confidence": 0.3}\<close>.
\<close>

definition unsure_llm_env :: handler_env where
  "unsure_llm_env =
     \<lparr>extractCodePattern = (\<lambda>f. None),
      fact_env_of =
        (\<lambda>i. \<lparr>embed = Inr (), search = Inr [],
               llm_answer =
                 Inr (Some \<lparr>operation = ''ADD'', decision_confidence = 3 / 10,
                            targetMemoryId = None\<rparr>),
               id_entropy = sample_entropy, fallback_entropy = sample_entropy\<rparr>),
      persist_embed = (\<lambda>k. Inr ())\<rparr>"

text \<open>
  A provider whose first two calls fail with a transport error and whose third call
  answers, and one whose every call fails with an error of its own.
\<close>

definition flaky_provider :: retry_env where
  "flaky_provider =
     \<lparr>formatted = (\<lambda>n. Inr ()),
      completion = (\<lambda>n request.
        if n < 3 then Inl (ErrorObject ''socket hang up'')
        else Inr (Some \<lparr>reply_content = Some ''done'', reply_tool_calls = []\<rparr>))\<rparr>"


text \<open>
  An environment of \<^verbatim>\<open>generate\<close> in which \<^verbatim>\<open>JSON.parse\<close> rejects the text
  \<^verbatim>\<open>{path:\<close> and every tool returns, two tool calls, and the state before a turn.
\<close>

definition sample_llm_env :: "string llm_env" where
  "sample_llm_env =
     \<lparr>json_parse = (\<lambda>s. if s = ''{path:'' then Inl ''SyntaxError: Unexpected end of JSON input''
                         else Inr s),
      executeTool = (\<lambda>k name args. Inr (''result of '' @ name)),
      retry_env_of = (\<lambda>k. flaky_provider),
      formattedTools = [''read_file''],
      maxIterations = 5,
      events_enabled = True\<rparr>"

definition good_call :: "string \<Rightarrow> tool_call" where
  "good_call ident =
     \<lparr>call_id = ident, function_name = ''read_file'', function_arguments = ''{}''\<rparr>"

definition bad_call :: tool_call where
  "bad_call = \<lparr>call_id = ''call_2'', function_name = ''write_file'', function_arguments = ''{path:''\<rparr>"

definition empty_state :: "string llm_state" where
  "empty_state = \<lparr>transcript = [], executions = [], emitted = [], api_log = []\<rparr>"

text \<open>
  A turn whose LLM service answers, and an environment of the background work in which
  every call that can throw does throw.
\<close>

definition sample_turn :: turn_env where
  "sample_turn =
     \<lparr>servicesInitialized = True, getLLMService = Inr (),
      llm_generate = (\<lambda>input. Inr (''echo: '' @ input))\<rparr>"

definition failing_memory_env :: memory_env where
  "failing_memory_env =
     \<lparr>DISABLE_EMBEDDINGS = False, EMBEDDING_DISABLED = False, USE_WORKSPACE_MEMORY = False,
      DISABLE_DEFAULT_MEMORY = False, DISABLE_REFLECTION_MEMORY = False,
      embeddingManager =
        Some (\<lambda>site. \<lparr>system_disabled = Some False, hasAvailableEmbeddings = Inr True,
                          getEmbeddingStatus = Inr (Some [Status ''ACTIVE''])\<rparr>),
      unifiedToolManager = True,
      interactionData = Inl (ErrorObject ''context manager unavailable''),
      sessionMetadata = Inr (),
      workspace_store = Inl (ErrorObject ''tool not found''),
      extract_and_operate_memory = Inl (ErrorObject ''vector store down''),
      getAllTools = Inl (ErrorObject ''tool enumeration failed''),
      reasoningDetector = True,
      detectReasoningContent = Inl (ErrorObject ''detector failed''),
      extract_reasoning_steps = Inl (ErrorObject ''extraction failed''),
      evaluate_reasoning = Inl (ErrorObject ''evaluation failed''),
      store_reasoning_memory = Inl (ErrorObject ''storage failed'')\<rparr>"

text \<open>
  The same environment with an embedding manager whose \<^verbatim>\<open>hasAvailableEmbeddings()\<close>
  throws, at both places where the source calls it.
\<close>

definition throwing_status_env :: memory_env where
  "throwing_status_env =
     failing_memory_env\<lparr>embeddingManager :=
       Some (\<lambda>site. \<lparr>system_disabled = Some False,
                         hasAvailableEmbeddings = Inl (ErrorObject ''embedding manager disposed''),
                         getEmbeddingStatus = Inr (Some [Status ''ACTIVE''])\<rparr>)\<rparr>"

text \<open>
  A session whose provider holds a transcript of four messages with a tool call and its
  result, a restoration without failures, and one whose second \<^verbatim>\<open>saveMessage\<close> fails.
\<close>

definition sample_call :: tool_call where
  "sample_call =
     \<lparr>call_id = ''call_1'', function_name = ''read_file'',
      function_arguments = ''{\"path\": \"a.txt\"}''\<rparr>"

definition sample_transcript :: "transcript_entry list" where
  "sample_transcript =
     [UserMessage ''read a.txt'', AssistantMessage None [sample_call],
      ToolResult ''call_1'' ''read_file'' (ToolValue ''contents''),
      AssistantMessage (Some ''done'') []]"

definition sample_store :: "transcript_entry stores" where
  "sample_store =
     \<lparr>table = (\<lambda>sid. if sid = ''session-1'' then sample_transcript else []), wal = []\<rparr>"

definition sample_session :: "transcript_entry session" where
  "sample_session =
     \<lparr>session_id = ''session-1'', historyEnabled = True, historyBackend = Database,
      storageManager = True, storageInitialized = True,
      historyProvider = Some DatabaseProvider, context_messages = Some sample_transcript,
      sessionMemoryMetadata = None, metadataSchema = False\<rparr>"

definition healthy_restore :: "transcript_entry restore_env" where
  "healthy_restore =
     \<lparr>init_error = None, CIPHER_MULTI_BACKEND = False, storage_constructs = (\<lambda>n. True),
      storage_connects = (\<lambda>n. True), provider_created = (\<lambda>n. True),
      multi_backend_built = (\<lambda>n. True), provider_created_lazily = (\<lambda>n. True),
      clearHistory_error = None, saveMessage_error = (\<lambda>k. None), getHistory_error = None,
      multi_backend_read = (\<lambda>k. []), has_clearMessages = True, clearMessages_error = None,
      has_restoreHistory = True, restoreHistory_error = None, has_setMessages = True,
      setMessages_error = None, addMessage_error = (\<lambda>k. None)\<rparr>"





definition multi_backend_restore :: "transcript_entry restore_env" where
  "multi_backend_restore = healthy_restore\<lparr>CIPHER_MULTI_BACKEND := True\<rparr>"

chapter \<open>Theorems\<close>

section \<open>Facts about the helpers\<close>




lemma set_add_all_set: "set (set_add_all seen xs) = set seen \<union> set xs"
  by (induction xs arbitrary: seen) auto

lemma set_add_all_distinct: "distinct seen \<Longrightarrow> distinct (set_add_all seen xs)"
  by (induction xs arbitrary: seen) auto

lemma array_from_set_distinct: "distinct (array_from_set xs)"
  by (simp add: array_from_set_def set_add_all_distinct)

lemma array_from_set_set: "set (array_from_set xs) = set xs"
  by (simp add: array_from_set_def set_add_all_set)

section \<open>Facts about extractTechnicalTags\<close>

lemma known_tags_lowercase: "\<forall>t \<in> set known_tags. toLowerCase t = t"
  by (simp add: known_tags_def languages_def frameworks_def tools_def toLowerCase_def
      lower_char_def)

lemma pattern_tags_known: "set (pattern_tags fct) \<subseteq> set known_tags"
  by (auto simp: pattern_tags_def content_tags_def push_if_def known_tags_def)

lemma extractTechnicalTags_eq:
  "extractTechnicalTags fct =
     array_from_set (if pattern_tags fct = [] then [''general-knowledge''] else pattern_tags fct)"
proof -
  let ?tgs = "if pattern_tags fct = [] then [''general-knowledge''] else pattern_tags fct"
  have "set ?tgs \<subseteq> set known_tags"
    using pattern_tags_known[of fct] by (auto simp: known_tags_def)
  then have "\<forall>t \<in> set (array_from_set ?tgs). toLowerCase t = t"
    using known_tags_lowercase by (auto simp: array_from_set_set)
  then have "map toLowerCase (array_from_set ?tgs) = array_from_set ?tgs"
    by (simp add: map_idI)
  then show ?thesis by (simp add: extractTechnicalTags_def Let_def)
qed

lemma extractTechnicalTags_nonempty: "extractTechnicalTags fct \<noteq> []"
proof -
  have "set (extractTechnicalTags fct) \<noteq> {}"
    by (simp add: extractTechnicalTags_eq array_from_set_set)
  then show ?thesis by auto
qed

section \<open>The loop over the facts\<close>

lemma process_facts_preserves:
  assumes step: "\<And>i fct st. Q st \<Longrightarrow>
      Q (process_fact args opts sv (extractCodePattern env) (fact_env_of env i) i fct st)"
    and init: "Q st"
  shows "Q (process_facts args opts sv env i facts st)"
  using init
proof (induction facts arbitrary: i st)
  case Nil
  then show ?case by simp
next
  case (Cons fct rest)
  then show ?case by (simp add: step)
qed

lemma handler_memory:
  "memory (returned (handler args sv env)) = []
   \<or> memory (returned (handler args sv env)) =
       memoryActions (process_facts args (merge_options (args_options args)) sv env 0
         (valid_facts args) initial_state)"
  by (simp add: handler_def failure_result_def Let_def)

lemma threshold_keeps:
  "action_id (apply_confidence_threshold opts a) = action_id a"
  "tags (apply_confidence_threshold opts a) = tags a"
  "confidence (apply_confidence_threshold opts a) = confidence a"
  by (simp_all add: apply_confidence_threshold_def)

lemma determine_tags: "tags (determineMemoryOperation e fct sims thr i cp tgs) = tgs"
  by (simp add: determineMemoryOperation_def Let_def split: list.split)

lemma llm_tags: "llmDetermineMemoryOperation e fct sims llm i cp tgs = Inr a \<Longrightarrow> tags a = tgs"
  by (auto simp: llmDetermineMemoryOperation_def Let_def
      split: sum.splits option.splits if_splits)

lemma process_fact_tags:
  assumes "\<forall>a \<in> set (memoryActions st). tags a \<noteq> []"
  shows "\<forall>a \<in> set (memoryActions (process_fact args opts sv xcp fe i fct st)). tags a \<noteq> []"
  using assms extractTechnicalTags_nonempty[of fct]
  by (auto simp: process_fact_def push_action_def Let_def threshold_keeps determine_tags
      fallback_add_def basic_analysis_def dest: llm_tags split: sum.splits)

lemma handler_tags: "\<forall>a \<in> set (memory (returned (handler args sv env))). tags a \<noteq> []"
proof -
  have "\<forall>a \<in> set (memoryActions (process_facts args opts sv env i facts initial_state)). tags a \<noteq> []"
    for opts i facts
    by (rule process_facts_preserves) (simp_all add: process_fact_tags initial_state_def)
  then show ?thesis using handler_memory[of args sv env] by auto
qed

section \<open>The similarity-only decision\<close>

text \<open>
  C1. For a fact decided by \<^verbatim>\<open>determineMemoryOperation\<close> on a list of similar memories
  (the handler passes the search results whose score is at least the similarity
  threshold): when the list is empty the action is ADD with confidence 0.8; when the score
  of its first hit (\<^verbatim>\<open>score || 0\<close>) is above 0.9 the action is NONE with confidence 0.9;
  when that score is above the threshold and at most 0.9 the action is UPDATE with
  confidence 0.75 and \<^verbatim>\<open>old_memory\<close> is the text of that hit, which is
  \<^verbatim>\<open>payload.data\<close> when that is a non-empty string, else \<^verbatim>\<open>text\<close> when that is a
  non-empty string, else the empty string; otherwise the action is ADD with confidence 0.7.
  No score is above a threshold that is \<^verbatim>\<open>undefined\<close> or \<^verbatim>\<open>NaN\<close>.
\<close>

theorem determineMemoryOperation_decision:
  "let a = determineMemoryOperation e fct similarMemories thr i cp tgs
   in (similarMemories = [] \<longrightarrow> event a = ''ADD'' \<and> confidence a = 8 / 10)
    \<and> (\<forall>top rest. similarMemories = top # rest \<longrightarrow>
         (let s = (case score top of None \<Rightarrow> 0 | Some v \<Rightarrow> v);
              above = (case thr of Some (Num t) \<Rightarrow> t < s | _ \<Rightarrow> False)
          in (s > 9 / 10 \<longrightarrow> event a = ''NONE'' \<and> confidence a = 9 / 10)
           \<and> (above \<and> s \<le> 9 / 10 \<longrightarrow>
                event a = ''UPDATE'' \<and> confidence a = 75 / 100
                \<and> old_memory a =
                    (case payload_data top of
                       Some (c # cs) \<Rightarrow> Some (c # cs)
                     | _ \<Rightarrow> (case hit_text top of
                              Some (c # cs) \<Rightarrow> Some (c # cs)
                            | _ \<Rightarrow> Some [])))
           \<and> (\<not> s > 9 / 10 \<and> \<not> (above \<and> s \<le> 9 / 10) \<longrightarrow>
                event a = ''ADD'' \<and> confidence a = 7 / 10)))"
proof -
  have gt: "js_gt s thr = (case thr of Some (Num t) \<Rightarrow> t < s | _ \<Rightarrow> False)" for s
    by (simp add: js_gt_def)
  have content: "Some (hit_content h) =
               (case payload_data h of
                  Some (c # cs) \<Rightarrow> Some (c # cs)
                | _ \<Rightarrow> (case hit_text h of
                         Some (c # cs) \<Rightarrow> Some (c # cs)
                       | _ \<Rightarrow> Some []))" for h
    by (simp add: hit_content_def str_or_def split: option.split list.split)
  show ?thesis
    unfolding determineMemoryOperation_def Let_def gt score_or_zero_def
    by (auto simp: content split: list.split)
qed

theorem determineMemoryOperation_decision_witness:
  "(let a = determineMemoryOperation sample_entropy ''In Python, def defines a function.''
              [sample_hit (82 / 100), sample_hit (3 / 10)] (Some (Num (7 / 10))) 0 None [''python'']
    in event a = ''UPDATE'' \<and> confidence a = 75 / 100
       \<and> old_memory a = Some ''def defines functions in Python'')
   \<and> (let a = determineMemoryOperation sample_entropy ''In Python, def defines a function.''
              [text_hit (9 / 10)] (Some (Num (7 / 10))) 0 None [''python'']
    in event a = ''UPDATE'' \<and> confidence a = 75 / 100
       \<and> old_memory a = Some ''Python functions start with def'')
   \<and> (let a = determineMemoryOperation sample_entropy ''In Python, def defines a function.''
              [sample_hit (95 / 100)] (Some (Num (7 / 10))) 0 None [''python'']
    in event a = ''NONE'' \<and> confidence a = 9 / 10)
   \<and> (let a = determineMemoryOperation sample_entropy ''In Python, def defines a function.''
              [sample_hit (7 / 10)] (Some (Num (7 / 10))) 0 None [''python'']
    in event a = ''ADD'' \<and> confidence a = 7 / 10)
   \<and> (let a = determineMemoryOperation sample_entropy ''In Python, def defines a function.''
              [sample_hit (82 / 100)] None 0 None [''python'']
    in event a = ''ADD'' \<and> confidence a = 7 / 10)
   \<and> (let a = determineMemoryOperation sample_entropy ''In Python, def defines a function.''
              [] (Some (Num (7 / 10))) 0 None [''python'']
    in event a = ''ADD'' \<and> confidence a = 8 / 10)"
  using
    determineMemoryOperation_decision[of sample_entropy "''In Python, def defines a function.''"
      "[sample_hit (82 / 100), sample_hit (3 / 10)]" "Some (Num (7 / 10))" 0 None "[''python'']"]
    determineMemoryOperation_decision[of sample_entropy "''In Python, def defines a function.''"
      "[text_hit (9 / 10)]" "Some (Num (7 / 10))" 0 None "[''python'']"]
    determineMemoryOperation_decision[of sample_entropy "''In Python, def defines a function.''"
      "[sample_hit (95 / 100)]" "Some (Num (7 / 10))" 0 None "[''python'']"]
    determineMemoryOperation_decision[of sample_entropy "''In Python, def defines a function.''"
      "[sample_hit (7 / 10)]" "Some (Num (7 / 10))" 0 None "[''python'']"]
    determineMemoryOperation_decision[of sample_entropy "''In Python, def defines a function.''"
      "[sample_hit (82 / 100)]" None 0 None "[''python'']"]
    determineMemoryOperation_decision[of sample_entropy "''In Python, def defines a function.''"
      "[]" "Some (Num (7 / 10))" 0 None "[''python'']"]
  by (simp add: Let_def sample_hit_def text_hit_def)

section \<open>Every action the handler returns\<close>

lemma determine_wf: "well_formed (determineMemoryOperation e fct sims thr i cp tgs)"
  by (simp add: determineMemoryOperation_def well_formed_def Let_def split: list.split)

lemma llm_wf: "llmDetermineMemoryOperation e fct sims llm i cp tgs = Inr a \<Longrightarrow> well_formed a"
  by (auto simp: llmDetermineMemoryOperation_def well_formed_def Let_def isValidOperation_def
      split: sum.splits option.splits if_splits)

lemma fallback_wf: "well_formed (fallback_add e i fct tgs cp)"
  by (simp add: fallback_add_def well_formed_def)

lemma basic_wf: "well_formed (basic_analysis args opts e i fct tgs cp)"
  by (simp add: basic_analysis_def well_formed_def Let_def)

lemma push_memory:
  "memoryActions (push_action opts a st) = memoryActions st @ [apply_confidence_threshold opts a]"
  by (simp add: push_action_def Let_def)

lemma threshold_gated: "well_formed a \<Longrightarrow> gated opts (apply_confidence_threshold opts a)"
  by (auto simp: apply_confidence_threshold_def gated_def well_formed_def)

lemma process_fact_gated:
  assumes "\<forall>x \<in> set (memoryActions st). gated opts x"
  shows "\<forall>x \<in> set (memoryActions (process_fact args opts sv xcp fe i fct st)). gated opts x"
proof -
  have llm: "gated opts (apply_confidence_threshold opts a)"
    if "llmDetermineMemoryOperation e f sims l j cp tgs = Inr a" for e f sims l j cp tgs a
    using that llm_wf threshold_gated by blast
  show ?thesis
    using assms
    by (simp add: process_fact_def Let_def push_memory threshold_gated determine_wf fallback_wf
        basic_wf llm split: sum.split)
qed

lemma handler_gated:
  "\<forall>a \<in> set (memory (returned (handler args sv env))). gated (merge_options (args_options args)) a"
proof -
  have "\<forall>x \<in> set (memoryActions (process_facts args opts sv env i facts initial_state)). gated opts x"
    for opts i facts
    by (rule process_facts_preserves) (simp_all add: process_fact_gated initial_state_def)
  then show ?thesis using handler_memory[of args sv env] by auto
qed

text \<open>
  C2. Every memory action in the \<^verbatim>\<open>memory\<close> array that the handler returns has an event
  among ADD, UPDATE, DELETE and NONE and a confidence in \<open>[0, 1]\<close>, and when its confidence
  is below the configured \<^verbatim>\<open>confidenceThreshold\<close> its event is NONE. The configured
  threshold is the value of the key in \<^verbatim>\<open>{ ...DEFAULT_OPTIONS, ...args.options }\<close>: the
  default 0.4 when the key is absent, else the value given. Against a value that is
  \<^verbatim>\<open>undefined\<close> or \<^verbatim>\<open>NaN\<close> no confidence is below, and the handler turns no event
  into NONE.
\<close>

theorem handler_actions_checked:
  "let configured =
         (case args_options args of
            None \<Rightarrow> Some (Num (4 / 10))
          | Some given \<Rightarrow>
              (case arg_confidenceThreshold given of
                 Absent \<Rightarrow> Some (Num (4 / 10))
               | Undefined \<Rightarrow> None
               | Value v \<Rightarrow> Some v))
   in confidenceThreshold (merge_options (args_options args)) = configured
    \<and> (\<forall>a \<in> set (memory (returned (handler args sv env))).
          event a \<in> {''ADD'', ''UPDATE'', ''DELETE'', ''NONE''}
          \<and> 0 \<le> confidence a \<and> confidence a \<le> 1
          \<and> ((case configured of Some (Num t) \<Rightarrow> confidence a < t | _ \<Rightarrow> False) \<longrightarrow>
               event a = ''NONE''))"
proof -
  have c: "confidenceThreshold (merge_options (args_options args)) =
         (case args_options args of
            None \<Rightarrow> Some (Num (4 / 10))
          | Some given \<Rightarrow>
              (case arg_confidenceThreshold given of
                 Absent \<Rightarrow> Some (Num (4 / 10))
               | Undefined \<Rightarrow> None
               | Value v \<Rightarrow> Some v))"
    by (simp add: merge_options_def DEFAULT_OPTIONS_def spread_key_def
        split: option.split property.split)
  have "\<forall>a \<in> set (memory (returned (handler args sv env))).
          event a \<in> {''ADD'', ''UPDATE'', ''DELETE'', ''NONE''}
          \<and> 0 \<le> confidence a \<and> confidence a \<le> 1
          \<and> ((case confidenceThreshold (merge_options (args_options args)) of
                  Some (Num t) \<Rightarrow> confidence a < t | _ \<Rightarrow> False) \<longrightarrow> event a = ''NONE'')"
    using handler_gated[of args sv env] by (simp add: gated_def well_formed_def js_lt_def)
  then show ?thesis unfolding Let_def c[symmetric] by simp
qed

theorem handler_actions_checked_witness:
  "map (\<lambda>a. (event a, confidence a))
       (memory (returned (handler strict_args sample_services llm_target_env)))
     = [(''NONE'', 9 / 10)]
   \<and> map (\<lambda>a. (event a, confidence a))
       (memory (returned (handler sample_args sample_services unsure_llm_env)))
     = [(''NONE'', 3 / 10)]
   \<and> map (\<lambda>a. (event a, confidence a))
       (memory (returned (handler undefined_threshold_args sample_services unsure_llm_env)))
     = [(''ADD'', 3 / 10)]"
proof -
  let ?m = "memory (returned (handler strict_args sample_services llm_target_env))"
  have c: "map confidence ?m = [9 / 10]" by code_simp
  have t: "args_options strict_args = Some (no_options\<lparr>arg_confidenceThreshold := Value (Num (95 / 100))\<rparr>)"
    by (simp add: strict_args_def)
  from c obtain a where m: "?m = [a]" and ca: "confidence a = 9 / 10" by auto
  have "a \<in> set ?m" using m by simp
  then have "event a = ''NONE''"
    using handler_actions_checked[of strict_args sample_services llm_target_env] ca
    unfolding Let_def t by simp
  then have first: "map (\<lambda>a. (event a, confidence a)) ?m = [(''NONE'', 9 / 10)]"
    using m ca by simp
  have second: "map (\<lambda>a. (event a, confidence a))
       (memory (returned (handler sample_args sample_services unsure_llm_env)))
     = [(''NONE'', 3 / 10)]"
    by code_simp
  have third: "map (\<lambda>a. (event a, confidence a))
       (memory (returned (handler undefined_threshold_args sample_services unsure_llm_env)))
     = [(''ADD'', 3 / 10)]"
    by code_simp
  show ?thesis using first second third by blast
qed

section \<open>Tags\<close>

text \<open>
  C10. For every fact, \<^verbatim>\<open>extractTechnicalTags\<close> returns a list that is not empty, has no
  duplicates and holds lower-case strings only; it is the single tag
  \<^verbatim>\<open>general-knowledge\<close> when no pattern matches. So every memory action that the handler
  returns has at least one tag.
\<close>

theorem extractTechnicalTags_tags:
  "extractTechnicalTags fct \<noteq> []
   \<and> distinct (extractTechnicalTags fct)
   \<and> (\<forall>t \<in> set (extractTechnicalTags fct). toLowerCase t = t)
   \<and> (pattern_tags fct = [] \<longrightarrow> extractTechnicalTags fct = [''general-knowledge''])
   \<and> (\<forall>a \<in> set (memory (returned (handler args sv env))). tags a \<noteq> [])"
proof -
  have low: "\<forall>t \<in> set (extractTechnicalTags fct). toLowerCase t = t"
    using pattern_tags_known[of fct] known_tags_lowercase
    by (auto simp: extractTechnicalTags_eq array_from_set_set known_tags_def)
  have gen: "pattern_tags fct = [] \<longrightarrow> extractTechnicalTags fct = [''general-knowledge'']"
    by (simp add: extractTechnicalTags_eq array_from_set_def)
  show ?thesis
    using low gen extractTechnicalTags_nonempty[of fct] handler_tags[of args sv env]
    by (simp add: extractTechnicalTags_eq array_from_set_distinct)
qed

theorem extractTechnicalTags_tags_witness:
  "extractTechnicalTags ''hello world'' = [''general-knowledge'']
   \<and> extractTechnicalTags ''Use Git with GitHub; Java and JavaScript error'' = [''javascript'', ''java'', ''git'', ''error-handling'']
   \<and> map tags (memory (returned (handler sample_args sample_services llm_target_env))) = [[''python'', ''programming'']]"
proof -
  have "pattern_tags ''hello world'' = []" by code_simp
  then have "extractTechnicalTags ''hello world'' = [''general-knowledge'']"
    using extractTechnicalTags_tags[of "''hello world''"] by blast
  moreover have "extractTechnicalTags ''Use Git with GitHub; Java and JavaScript error'' = [''javascript'', ''java'', ''git'', ''error-handling'']"
    by code_simp
  moreover have "map tags (memory (returned (handler sample_args sample_services llm_target_env))) = [[''python'', ''programming'']]"
    by code_simp
  ultimately show ?thesis by blast
qed

section \<open>Persistence\<close>

lemma persist_loop_source:
  "\<forall>c \<in> set (persist_loop pe k actions). qualitySource (payload_of c) = ''heuristic''"
  by (induction actions arbitrary: k)
    (auto simp: createKnowledgePayload_def Let_def split: sum.split)

lemma persistMemoryActions_source:
  "\<forall>c \<in> set (persistMemoryActions pe actions). qualitySource (payload_of c) = ''heuristic''"
  by (simp add: persistMemoryActions_def Let_def persist_loop_source)

text \<open>
  C5. In \<^verbatim>\<open>persistMemoryActions\<close>, the path that writes to the vector store, the
  \<^verbatim>\<open>qualitySource\<close> of every payload handed to \<^verbatim>\<open>insert\<close> or \<^verbatim>\<open>update\<close> is
  \<^verbatim>\<open>heuristic\<close>, whichever way the action was decided.
\<close>

theorem persisted_qualitySource_heuristic:
  "\<forall>c \<in> set (store_calls (handler args sv env)). qualitySource (payload_of c) = ''heuristic''"
proof -
  have "store_calls (handler args sv env) = []
        \<or> (\<exists>acts. store_calls (handler args sv env)
                     = persistMemoryActions (persist_embed env) acts)"
    by (auto simp: handler_def failure_result_def Let_def)
  then show ?thesis using persistMemoryActions_source by auto
qed

theorem persisted_qualitySource_heuristic_witness:
  "llmDecisions (returned (handler sample_args sample_services llm_target_env)) = 1
   \<and> map (\<lambda>c. (payload_event (payload_of c), qualitySource (payload_of c)))
         (store_calls (handler sample_args sample_services llm_target_env))
       = [(''UPDATE'', ''heuristic'')]"
proof -
  let ?calls = "store_calls (handler sample_args sample_services llm_target_env)"
  have l: "llmDecisions (returned (handler sample_args sample_services llm_target_env)) = 1"
    by code_simp
  have e: "map (\<lambda>c. payload_event (payload_of c)) ?calls = [''UPDATE'']" by code_simp
  then obtain c where c: "?calls = [c]" and ev: "payload_event (payload_of c) = ''UPDATE''"
    by auto
  have "c \<in> set ?calls" using c by simp
  then have "qualitySource (payload_of c) = ''heuristic''"
    using persisted_qualitySource_heuristic[of sample_args sample_services llm_target_env]
    by blast
  then show ?thesis using l c ev by simp
qed

section \<open>Identifiers\<close>











section \<open>A failed embedding\<close>

lemma process_fact_embed_failure:
  assumes "embedder_available sv" "vectorStore_available sv" "embed fe = Inl err"
  shows "memoryActions (process_fact args opts sv xcp fe i fct st) = memoryActions st
     \<and> fallbackDecisionsUsed (process_fact args opts sv xcp fe i fct st)
         = fallbackDecisionsUsed st + 1"
  using assms by (simp add: process_fact_def Let_def)

text \<open>
  C4. The claim says that after a failed embedding the fact's fallback action, ADD with
  confidence 0.6, is among the resulting memory actions. The source builds that action and
  counts it in \<^verbatim>\<open>fallbackDecisionsUsed\<close>, but leaves the loop body by \<^verbatim>\<open>continue\<close>
  before \<^verbatim>\<open>memoryActions.push\<close>: for one fact whose embedding fails the handler succeeds
  with an empty \<^verbatim>\<open>memory\<close> array, one fallback decision counted and
  \<^verbatim>\<open>handleRuntimeFailure\<close> called once.
\<close>

theorem embed_failure_drops_fallback:
  "success (returned (handler sample_args sample_services failing_embed_env))
   \<and> memory (returned (handler sample_args sample_services failing_embed_env)) = []
   \<and> fallbackDecisions (returned (handler sample_args sample_services failing_embed_env)) = 1
   \<and> disabled_by (handler sample_args sample_services failing_embed_env)
       = [ErrorObject ''embedding backend unreachable'']"
  by code_simp

section \<open>Retries of the provider call\<close>






section \<open>Tool calls whose arguments do not parse\<close>

lemma handle_tool_calls_append:
  "handle_tool_calls env (before @ rest) st =
     handle_tool_calls env rest (handle_tool_calls env before st)"
  by (induction before arbitrary: st) simp_all

text \<open>
  C7. In the loop over the tool calls of \<^verbatim>\<open>generate\<close>, when \<^verbatim>\<open>JSON.parse\<close> rejects the
  arguments of a tool call, the pass for that call appends exactly one message to the
  transcript, the tool result for the id of that call whose payload is the parse error; it
  executes no tool; and the loop goes on with the remaining tool calls from the state so
  reached.
\<close>

theorem parse_failure_one_tool_result:
  assumes "json_parse env (function_arguments toolCall) = Inl e"
  shows "let reached = handle_tool_calls env before st;
             next_state = handle_tool_call env toolCall reached
         in transcript next_state =
              transcript reached @ [ToolResult (call_id toolCall) (function_name toolCall)
                                      (ToolError (''Failed to parse arguments: '' @ e))]
          \<and> executions next_state = executions reached
          \<and> handle_tool_calls env (before @ toolCall # rest) st =
              handle_tool_calls env rest next_state"
  using assms
  by (simp add: handle_tool_call_def addToolResult_def Let_def handle_tool_calls_append)

theorem parse_failure_one_tool_result_witness:
  "json_parse sample_llm_env (function_arguments bad_call)
     = Inl ''SyntaxError: Unexpected end of JSON input''
   \<and> transcript (handle_tool_calls sample_llm_env
        ([good_call ''call_1''] @ bad_call # [good_call ''call_3'']) empty_state) =
       [ToolResult ''call_1'' ''read_file'' (ToolValue ''result of read_file''),
        ToolResult ''call_2'' ''write_file''
          (ToolError ''Failed to parse arguments: SyntaxError: Unexpected end of JSON input''),
        ToolResult ''call_3'' ''read_file'' (ToolValue ''result of read_file'')]
   \<and> executions (handle_tool_calls sample_llm_env
        ([good_call ''call_1''] @ bad_call # [good_call ''call_3'']) empty_state) =
       [(''read_file'', ''{}''), (''read_file'', ''{}'')]"
proof -
  have p: "json_parse sample_llm_env (function_arguments bad_call)
             = Inl ''SyntaxError: Unexpected end of JSON input''"
    by (simp add: sample_llm_env_def bad_call_def)
  have g: "handle_tool_call sample_llm_env (good_call c) s =
             s\<lparr>transcript := transcript s @ [ToolResult c ''read_file'' (ToolValue ''result of read_file'')],
               executions := executions s @ [(''read_file'', ''{}'')]\<rparr>" for c s
    by (simp add: handle_tool_call_def sample_llm_env_def good_call_def addToolResult_def Let_def)
  let ?s1 = "handle_tool_calls sample_llm_env [good_call ''call_1''] empty_state"
  let ?s2 = "handle_tool_call sample_llm_env bad_call ?s1"
  have s1: "transcript ?s1 = [ToolResult ''call_1'' ''read_file'' (ToolValue ''result of read_file'')]"
           "executions ?s1 = [(''read_file'', ''{}'')]"
    by (simp_all add: g empty_state_def)
  from parse_failure_one_tool_result[OF p, where st = empty_state
        and before = "[good_call ''call_1'']" and rest = "[good_call ''call_3'']"]
  have t: "transcript ?s2 = transcript ?s1 @ [ToolResult (call_id bad_call) (function_name bad_call)
              (ToolError (''Failed to parse arguments: '' @ ''SyntaxError: Unexpected end of JSON input''))]"
    and x: "executions ?s2 = executions ?s1"
    and c: "handle_tool_calls sample_llm_env ([good_call ''call_1''] @ bad_call # [good_call ''call_3'']) empty_state
            = handle_tool_calls sample_llm_env [good_call ''call_3''] ?s2"
    unfolding Let_def by blast+
  have "transcript (handle_tool_calls sample_llm_env [good_call ''call_3''] ?s2) =
          transcript ?s2 @ [ToolResult ''call_3'' ''read_file'' (ToolValue ''result of read_file'')]"
       "executions (handle_tool_calls sample_llm_env [good_call ''call_3''] ?s2) =
          executions ?s2 @ [(''read_file'', ''{}'')]"
    by (simp_all add: g)
  then show ?thesis
    unfolding c t x s1 using p by (simp add: bad_call_def)
qed

section \<open>Background operations of a turn\<close>

lemma enforceReflection_returns: "fst (enforceReflectionMemoryProcessing env allTools) = Inr ()"
  by (simp add: enforceReflectionMemoryProcessing_def split: prod.split sum.split)

lemma enforceMemoryExtraction_returns: "fst (enforceMemoryExtraction env) = Inr ()"
  by (simp add: enforceMemoryExtraction_def split: prod.split sum.split)

lemma background_callback_resolves:
  "fst (background_callback env) = (\<not> isl (embeddingManagerDisabled BackgroundCallback env))"
  by (simp add: background_callback_def split: prod.split sum.split)

lemma run_response:
  assumes "run tenv menv input imageDataInput = Inr r"
  shows "llm_generate tenv input = Inr (response r)
       \<and> backgroundOperations r =
           (if isl (embeddingManagerDisabled BackgroundCallback menv) then Pending else Resolved)
       \<and> (\<forall>other. \<exists>r'. run tenv other input imageDataInput = Inr r'
              \<and> response r' = response r)"
proof -
  have res: "\<And>e. fst (background_callback e)
                 = (\<not> isl (embeddingManagerDisabled BackgroundCallback e))"
    by (rule background_callback_resolves)
  have fg: "llm_generate tenv input = Inr (response r)
       \<and> backgroundOperations r =
           (if isl (embeddingManagerDisabled BackgroundCallback menv) then Pending else Resolved)"
    using assms res[of menv]
    by (auto simp: run_def split: if_splits sum.splits prod.splits option.splits)
  have indep: "\<exists>r'. run tenv other input imageDataInput = Inr r' \<and> response r' = response r"
    for other
    using assms
    by (auto simp: run_def split: if_splits sum.splits prod.splits option.splits)
  show ?thesis using fg indep by blast
qed

text \<open>
  C8. The claim says that the promise \<^verbatim>\<open>backgroundOperations\<close> of a call of \<^verbatim>\<open>run\<close>
  that returns always resolves. \<^verbatim>\<open>enforceMemoryExtraction\<close> and
  \<^verbatim>\<open>enforceReflectionMemoryProcessing\<close> do catch and log what their steps throw, and the
  callback calls \<^verbatim>\<open>resolve\<close> on every path that it completes. But the callback runs the
  status check of the embedding manager before its \<^verbatim>\<open>try\<close> block, while
  \<^verbatim>\<open>enforceMemoryExtraction\<close> runs the same check inside its own: for a manager whose
  \<^verbatim>\<open>hasAvailableEmbeddings()\<close> throws, \<^verbatim>\<open>run\<close> returns the response, the callback ends
  at the check, and the promise is neither resolved nor rejected; the same failure inside
  \<^verbatim>\<open>enforceMemoryExtraction\<close> is caught and logged.
\<close>

theorem status_check_leaves_promise_pending:
  "run sample_turn throwing_status_env ''hello'' None =
     Inr \<lparr>response = ''echo: hello'', backgroundOperations = Pending, background_log = []\<rparr>
   \<and> enforceMemoryExtraction throwing_status_env =
       (Inr (), [''Memory extraction failed: embedding manager disposed''])
   \<and> run sample_turn failing_memory_env ''hello'' None =
     Inr \<lparr>response = ''echo: hello'', backgroundOperations = Resolved,
          background_log =
            [''Starting background memory operations'',
             ''Memory extraction failed: context manager unavailable'',
             ''Background memory operations completed successfully'']\<rparr>"
  by code_simp

section \<open>Serialize and deserialize\<close>

















text \<open>
  The other conditions of the theorem are needed as well. A session with a database provider
  over a shared storage manager and the backend \<^verbatim>\<open>memory\<close> is restored without a
  provider and with an empty transcript. With \<^verbatim>\<open>CIPHER_MULTI_BACKEND\<close> set the messages
  are written to the log, and the refresh reads what the primary holds for the session
  before the flush tick.
\<close>

lemma restore_to_memory_backend:
  "historyProvider (fst (projr (deserialize healthy_restore
       (serialize ''1'' (sample_session\<lparr>historyBackend := Memory\<rparr>) sample_store None [] 0)
       sample_store))) = None
   \<and> context_messages (fst (projr (deserialize healthy_restore
       (serialize ''1'' (sample_session\<lparr>historyBackend := Memory\<rparr>) sample_store None [] 0)
       sample_store))) = Some []"
  by code_simp

lemma restore_to_multi_backend:
  "historyProvider (fst (projr (deserialize multi_backend_restore
       (serialize ''1'' sample_session sample_store None [] 0) sample_store)))
     = Some MultiBackendProvider
   \<and> context_messages (fst (projr (deserialize multi_backend_restore
       (serialize ''1'' sample_session sample_store None [] 0) sample_store))) = Some []
   \<and> wal (snd (projr (deserialize multi_backend_restore
       (serialize ''1'' sample_session sample_store None [] 0) sample_store)))
     = ClearEntry ''session-1'' # map (SaveEntry ''session-1'') sample_transcript"
  by code_simp

end
